theory Spec2Isabelle
  imports Main "HOL-Library.AList" "HOL-Library.Multiset"
begin

section \<open>The host-list script of an Arista leaf pair\<close>

text \<open>
  The script \<^verbatim>\<open>host_list.py\<close> is one straight-line program.  Its inputs are the JSON
  answers of the leaf switch, the answers of the router (one query per remote VLAN) and
  the reverse DNS lookup; its outputs are the lines appended to the two report files.
  Python strings are modelled as \<^typ>\<open>string\<close>: the devices and \<^verbatim>\<open>str(int)\<close> produce ASCII
  only, so \<^verbatim>\<open>\d\<close> is one of the ten ASCII digits here.  (On a Python string \<^verbatim>\<open>\d\<close> also
  matches the decimal digits of other scripts, which a \<^typ>\<open>char\<close> cannot hold: every
  statement about a text below is a statement about a text of ASCII characters.)  A Python \<^verbatim>\<open>dict\<close> is an association
  list with distinct keys in insertion order; assigning to a key that is present replaces
  the value in place, assigning to a new key appends it, which is \<^const>\<open>AList.update\<close>.
  Every exception the script does not catch ends the run; it is a value of \<open>error\<close>.
\<close>

subsection \<open>Data\<close>

datatype error =
  IndexError
  | ConnectionError
  | CommandError
  | AddressValueError
  | Herror
  | Gaierror
  | Timeout

text \<open>One row of \<^verbatim>\<open>show mac address-table\<close> (\<^verbatim>\<open>unicastTable.tableEntries\<close>).\<close>

record mac_entry =
  macAddress :: string
  interface :: string
  vlanId :: int
  entryType :: string

text \<open>One row of \<^verbatim>\<open>ipV4Neighbors\<close>.\<close>

record arp_entry =
  address :: string
  hwAddress :: string

text \<open>One routing context of \<^verbatim>\<open>show arp vrf all interface vlanN\<close>.\<close>

record vrf =
  dynamicEntries :: int
  ipV4Neighbors :: "arp_entry list"

text \<open>The value stored for a MAC address in a partition: its interface and its VLAN.\<close>

type_synonym mac_info = "string \<times> int"

type_synonym mac_dict = "(string \<times> mac_info) list"

type_synonym arp_index = "(string \<times> string) list"

text \<open>
  The four answers of the leaf: the address table, the layer-3 interfaces (name and
  \<^verbatim>\<open>lineProtocolStatus\<close>, in key order), the ARP table and the keys of the VLAN database.
\<close>

record leaf_data =
  show_macs :: "mac_entry list"
  interfaces :: "(string \<times> string) list"
  leaf_arp :: "arp_entry list"
  show_vlans :: "string list"

subsection \<open>Strings, numbers and the regular expressions\<close>

abbreviation newline :: char where
  "newline \<equiv> CHR 0x0A"

definition is_digit :: "char \<Rightarrow> bool" where
  "is_digit c = (c \<in> set ''0123456789'')"

definition digit_char :: "nat \<Rightarrow> char" where
  "digit_char d = ''0123456789'' ! d"

text \<open>Python's \<^verbatim>\<open>str\<close> of an integer.\<close>

fun str_nat :: "nat \<Rightarrow> string" where
  "str_nat n = (if n < 10 then [digit_char n] else str_nat (n div 10) @ [digit_char (n mod 10)])"

text \<open>The equation of \<open>str_nat\<close> is unfolded by hand: as a rewrite rule it would not stop.\<close>

declare str_nat.simps [simp del]

definition str_int :: "int \<Rightarrow> string" where
  "str_int i = (if i < 0 then CHR ''-'' # str_nat (nat (- i)) else str_nat (nat i))"

text \<open>Python's \<^verbatim>\<open>int\<close> of a string of ASCII digits.\<close>

definition digit_val :: "char \<Rightarrow> nat" where
  "digit_val c = of_char c - 48"

definition int_of_digits :: "string \<Rightarrow> nat" where
  "int_of_digits s = foldl (\<lambda>acc c. 10 * acc + digit_val c) 0 s"

definition starts_with :: "string \<Rightarrow> string \<Rightarrow> bool" where
  "starts_with p s = (take (length p) s = p)"

text \<open>
  \<^verbatim>\<open>$\<close> without the MULTILINE flag: the end of the string, or just before a newline that
  is the last character.  The argument is what is left of the string.
\<close>

definition at_end :: "string \<Rightarrow> bool" where
  "at_end rest = (rest = [] \<or> rest = [newline])"

text \<open>
  \<^verbatim>\<open>(?<!409(3|4))\<close>: the four characters before the position are neither 4093 nor 4094.
  The argument is the text before the position.
\<close>

definition not_after_409x :: "string \<Rightarrow> bool" where
  "not_after_409x pre =
     (let t = drop (length pre - 4) pre in t \<noteq> ''4093'' \<and> t \<noteq> ''4094'')"

text \<open>
  \<^verbatim>\<open>\d{1,4}(?<!409(3|4))$\<close> at a position, \<open>pre\<close> being the text already matched: the
  whole run of digits is taken (a shorter one is followed by a digit, where \<^verbatim>\<open>$\<close> fails),
  it has one to four digits, the look-behind holds after it and \<^verbatim>\<open>$\<close> matches there.
\<close>

definition digits_then_end :: "string \<Rightarrow> string \<Rightarrow> bool" where
  "digits_then_end pre s =
     (let ds = takeWhile is_digit s; rest = dropWhile is_digit s
      in 1 \<le> length ds \<and> length ds \<le> 4 \<and> not_after_409x (pre @ ds) \<and> at_end rest)"

text \<open>\<^verbatim>\<open>re.match(r'^Vlan\d{1,4}(?<!409(3|4))$', s)\<close>\<close>

definition vlan_int_match :: "string \<Rightarrow> bool" where
  "vlan_int_match s = (starts_with ''Vlan'' s \<and> digits_then_end ''Vlan'' (drop 4 s))"

text \<open>\<^verbatim>\<open>re.match(r'^(?!1$)\d{1,4}(?<!409(3|4))$', s)\<close>\<close>

definition leaf_vlan_match :: "string \<Rightarrow> bool" where
  "leaf_vlan_match s = (\<not> (starts_with ''1'' s \<and> at_end (drop 1 s)) \<and> digits_then_end [] s)"

text \<open>
  \<^verbatim>\<open>re.match(r'^((?!A|B).)*$', s)\<close> for a list of literal alternatives: at every
  position the star goes on only if none of the alternatives starts there and the
  character is not a newline (\<^verbatim>\<open>.\<close>); where it stops, \<^verbatim>\<open>$\<close> has to match.
\<close>

fun none_starts :: "string list \<Rightarrow> string \<Rightarrow> bool" where
  "none_starts bad [] = True"
| "none_starts bad (c # cs) =
     (if c = newline then cs = []
      else (\<forall>b \<in> set bad. \<not> starts_with b (c # cs)) \<and> none_starts bad cs)"

subsection \<open>Filtering and classification\<close>

definition macadds :: "mac_entry list \<Rightarrow> mac_entry list" where
  "macadds tableEntries =
     [macs \<leftarrow> tableEntries.
        none_starts [''Vx'', ''Ro''] (interface macs) \<and> none_starts [''st''] (entryType macs)]"

definition vlan_ints :: "(string \<times> string) list \<Rightarrow> string list" where
  "vlan_ints ifs = [vlan. (vlan, status) \<leftarrow> ifs, vlan_int_match vlan \<and> status = ''up'']"

definition leaf_vlans :: "string list \<Rightarrow> string list" where
  "leaf_vlans vlans = [vlan \<leftarrow> vlans. leaf_vlan_match vlan]"

definition local_vlans :: "string list \<Rightarrow> string list \<Rightarrow> string list" where
  "local_vlans lv vi = [vlan \<leftarrow> lv. ''Vlan'' @ vlan \<in> set vi]"

definition router_vlans :: "string list \<Rightarrow> string list \<Rightarrow> string list" where
  "router_vlans lv vi = [vlan \<leftarrow> lv. ''Vlan'' @ vlan \<notin> set vi]"

subsection \<open>The two partitions\<close>

text \<open>\<^verbatim>\<open>s.split(':')\<close> and, for the addresses, \<^verbatim>\<open>s.split('.')\<close>.\<close>

fun split_on :: "char \<Rightarrow> string \<Rightarrow> string list" where
  "split_on sep [] = [[]]"
| "split_on sep (c # cs) =
     (if c = sep then [] # split_on sep cs
      else (case split_on sep cs of
              [] \<Rightarrow> [[c]]
            | p # ps \<Rightarrow> (c # p) # ps))"

text \<open>
  \<^verbatim>\<open>'{}{}.{}{}.{}{}'.format(*mac.split(':'))\<close>: the first six groups; more are ignored,
  fewer raise IndexError.
\<close>

definition mac_format :: "string \<Rightarrow> error + string" where
  "mac_format m =
     (let p = split_on CHR '':'' m in
      if length p < 6 then Inl IndexError
      else Inr (p ! 0 @ p ! 1 @ ''.'' @ p ! 2 @ p ! 3 @ ''.'' @ p ! 4 @ p ! 5))"

text \<open>
  The dictionary comprehension of \<^verbatim>\<open>local_macs\<close> and \<^verbatim>\<open>routed_macs\<close>, the condition
  being the parameter: for every entry the condition is tested first, then the key is
  formatted (which may raise), then the entry is stored.
\<close>

fun mac_comprehension :: "(mac_entry \<Rightarrow> bool) \<Rightarrow> mac_entry list \<Rightarrow> mac_dict \<Rightarrow> error + mac_dict" where
  "mac_comprehension cond [] d = Inr d"
| "mac_comprehension cond (mac # macs) d =
     (if cond mac then
        (case mac_format (macAddress mac) of
           Inl e \<Rightarrow> Inl e
         | Inr k \<Rightarrow> mac_comprehension cond macs (AList.update k (interface mac, vlanId mac) d))
      else mac_comprehension cond macs d)"

definition local_macs :: "string list \<Rightarrow> mac_entry list \<Rightarrow> error + mac_dict" where
  "local_macs vi ms = mac_comprehension (\<lambda>mac. ''Vlan'' @ str_int (vlanId mac) \<in> set vi) ms []"

definition routed_macs :: "string list \<Rightarrow> mac_entry list \<Rightarrow> error + mac_dict" where
  "routed_macs vi ms = mac_comprehension (\<lambda>mac. ''Vlan'' @ str_int (vlanId mac) \<notin> set vi) ms []"

subsection \<open>The ARP indexes\<close>

definition arp_dict :: "arp_entry list \<Rightarrow> arp_index" where
  "arp_dict arp_elem = fold (\<lambda>entry. AList.update (address entry) (hwAddress entry)) arp_elem []"

text \<open>
  The innermost loop of the router part, \<^verbatim>\<open>for arp_entry in ...['ipV4Neighbors']\<close>, and
  the loop around it, \<^verbatim>\<open>for vrf in show_arp[0]['vrfs']\<close>, which skips the VRFs without
  dynamic entries.
\<close>

definition store_rows :: "arp_entry list \<Rightarrow> arp_index \<Rightarrow> arp_index" where
  "store_rows rows d = fold (\<lambda>arp_entry. AList.update (address arp_entry) (hwAddress arp_entry)) rows d"

definition vrf_loop :: "(string \<times> vrf) list \<Rightarrow> arp_index \<Rightarrow> arp_index" where
  "vrf_loop vrfs d =
     fold (\<lambda>(name, v) d. if dynamicEntries v > 0 then store_rows (ipV4Neighbors v) d else d) vrfs d"

text \<open>The rows that one answer of the router adds to the index, in the order of the loops.\<close>

definition vrf_rows :: "(string \<times> vrf) list \<Rightarrow> arp_entry list" where
  "vrf_rows vrfs = concat [ipV4Neighbors v. (name, v) \<leftarrow> vrfs, dynamicEntries v > 0]"

definition show_arp_command :: "string \<Rightarrow> string" where
  "show_arp_command vlan = ''show arp vrf all interface vlan'' @ vlan"

text \<open>
  \<^verbatim>\<open>for vlan in router_vlans\<close>: the query is not guarded, so an exception of
  \<^verbatim>\<open>run_commands\<close> leaves the loop and the script.
\<close>

fun router_loop :: "(string \<Rightarrow> error + (string \<times> vrf) list) \<Rightarrow> string list \<Rightarrow> arp_index \<Rightarrow> error + arp_index" where
  "router_loop router [] d = Inr d"
| "router_loop router (vlan # vlans) d =
     (case router (show_arp_command vlan) of
        Inl e \<Rightarrow> Inl e
      | Inr show_arp \<Rightarrow> router_loop router vlans (vrf_loop show_arp d))"

subsection \<open>Resolution\<close>

definition noip_line :: "string \<Rightarrow> mac_info \<Rightarrow> string" where
  "noip_line mac info =
     ''MAC Address: '' @ mac @ '' in VLAN: '' @ str_int (snd info) @ '' on port '' @ fst info
       @ '' does not resolve to an IP address'' @ [newline]"

text \<open>
  The addresses that the index maps to a MAC address, in the order of the index:
  \<^verbatim>\<open>ipadd = [key for key, value in arp_dict.items() if value == mac]\<close>
\<close>

definition ipadd :: "arp_index \<Rightarrow> string \<Rightarrow> string list" where
  "ipadd arp mac = [key. (key, value) \<leftarrow> arp, value = mac]"

text \<open>
  The loops over \<^verbatim>\<open>local_macs\<close> and \<^verbatim>\<open>routed_macs\<close>.  The state is the pair of the lines
  appended to the no-IP file and of \<^verbatim>\<open>ip_addrs\<close>.  The loop runs over the keys and reads
  \<^verbatim>\<open>local_macs[mac]\<close>; the keys being distinct, that is the loop over the items.
\<close>

fun resolve_loop :: "mac_dict \<Rightarrow> arp_index \<Rightarrow> string list \<times> string list \<Rightarrow> string list \<times> string list" where
  "resolve_loop [] arp st = st"
| "resolve_loop ((mac, info) # rest) arp (noip, ip_addrs) =
     (if mac \<notin> set (map snd arp)
      then resolve_loop rest arp (noip @ [noip_line mac info], ip_addrs)
      else resolve_loop rest arp (noip, ip_addrs @ ipadd arp mac))"

subsection \<open>Sorting and naming\<close>

text \<open>
  \<^verbatim>\<open>ipaddress.IPv4Address\<close> of a string, as the standard library parses it: four octets
  separated by dots, each of one to three ASCII digits, without a leading zero unless it
  is 0 itself, at most 255.  Anything else raises AddressValueError.
\<close>

definition parse_octet :: "string \<Rightarrow> error + nat" where
  "parse_octet s =
     (if s = [] \<or> \<not> list_all is_digit s \<or> length s > 3 then Inl AddressValueError
      else if s \<noteq> ''0'' \<and> hd s = CHR ''0'' then Inl AddressValueError
      else if int_of_digits s > 255 then Inl AddressValueError
      else Inr (int_of_digits s))"

definition IPv4Address :: "string \<Rightarrow> error + nat" where
  "IPv4Address s =
     (case map parse_octet (split_on CHR ''.'' s) of
        [Inr a, Inr b, Inr c, Inr d] \<Rightarrow> Inr (((a * 256 + b) * 256 + c) * 256 + d)
      | _ \<Rightarrow> Inl AddressValueError)"

text \<open>The keys of \<^verbatim>\<open>sorted\<close> are computed first, in order; the first failure raises.\<close>

fun sort_keys :: "string list \<Rightarrow> error + nat list" where
  "sort_keys [] = Inr []"
| "sort_keys (ip # ips) =
     (case IPv4Address ip of
        Inl e \<Rightarrow> Inl e
      | Inr k \<Rightarrow> (case sort_keys ips of Inl e \<Rightarrow> Inl e | Inr ks \<Rightarrow> Inr (k # ks)))"

text \<open>\<^verbatim>\<open>sorted(ip_addrs, key=ipaddress.IPv4Address)\<close>: a stable sort on the keys.\<close>

definition sorted_ips :: "string list \<Rightarrow> error + string list" where
  "sorted_ips ip_addrs =
     (case sort_keys ip_addrs of
        Inl e \<Rightarrow> Inl e
      | Inr ks \<Rightarrow> Inr (map snd (sort_key fst (zip ks ip_addrs))))"

text \<open>
  One turn of the last loop.  The resolver is \<^verbatim>\<open>socket.gethostbyaddr(ip)[0]\<close>; every
  exception it raises is caught by \<^verbatim>\<open>except Exception\<close>.
\<close>

definition name_line :: "(string \<Rightarrow> error + string) \<Rightarrow> string \<Rightarrow> string" where
  "name_line resolver ip =
     (case resolver ip of
        Inr name \<Rightarrow> ip @ ''  '' @ name @ '' '' @ [newline]
      | Inl e \<Rightarrow> ip @ '' does not resolve in DNS'' @ [newline])"

definition ip_report :: "(string \<Rightarrow> error + string) \<Rightarrow> string list \<Rightarrow> string list" where
  "ip_report resolver ips = map (name_line resolver) ips"

subsection \<open>The whole run\<close>

text \<open>
  The result is the exception that ended the run, if any, the lines appended to the
  no-IP file and the lines appended to the IP file.  The five queries of the leaf come
  first in the script and write nothing; their answers are the argument \<open>leaf\<close>.  The
  hostname of the leaf only names the two files and is left out.
\<close>

definition run ::
  "leaf_data \<Rightarrow> (string \<Rightarrow> error + (string \<times> vrf) list) \<Rightarrow> (string \<Rightarrow> error + string)
     \<Rightarrow> error option \<times> string list \<times> string list" where
  "run leaf router resolver =
     (let ms = macadds (show_macs leaf);
          vi = vlan_ints (interfaces leaf);
          lv = leaf_vlans (show_vlans leaf)
      in case local_macs vi ms of
           Inl e \<Rightarrow> (Some e, [], [])
         | Inr lm \<Rightarrow>
        (case routed_macs vi ms of
           Inl e \<Rightarrow> (Some e, [], [])
         | Inr rm \<Rightarrow>
        (let st1 = resolve_loop lm (arp_dict (leaf_arp leaf)) ([], [])
         in case router_loop router (router_vlans lv vi) [] of
              Inl e \<Rightarrow> (Some e, fst st1, [])
            | Inr router_arp_dict \<Rightarrow>
           (let st2 = resolve_loop rm router_arp_dict st1
            in case sorted_ips (snd st2) of
                 Inl e \<Rightarrow> (Some e, fst st2, [])
               | Inr ips \<Rightarrow> (None, fst st2, ip_report resolver ips)))))"

subsection \<open>Sample inputs\<close>

text \<open>A resolver that knows one address and fails for every other one.\<close>

definition ex_resolver :: "string \<Rightarrow> error + string" where
  "ex_resolver ip = (if ip = ''10.0.10.5'' then Inr ''host-a.example.com'' else Inl Herror)"

text \<open>
  A leaf with VLAN 10 routed locally, VLANs 20 and 30 routed elsewhere, the peering VLAN
  4094, two hosts in VLAN 10 (the first with two addresses, the second silent), one host
  in VLAN 20, the peer switch in VLAN 4094, an overlay entry and a static router entry.
\<close>

definition ex_macs :: "mac_entry list" where
  "ex_macs =
     [\<lparr>macAddress = ''aa:bb:cc:00:11:22'', interface = ''Ethernet1'', vlanId = 10, entryType = ''dynamic''\<rparr>,
      \<lparr>macAddress = ''aa:bb:cc:00:33:44'', interface = ''Ethernet2'', vlanId = 10, entryType = ''dynamic''\<rparr>,
      \<lparr>macAddress = ''aa:bb:cc:00:55:66'', interface = ''Ethernet3'', vlanId = 20, entryType = ''dynamic''\<rparr>,
      \<lparr>macAddress = ''aa:bb:cc:00:77:88'', interface = ''Vxlan1'', vlanId = 20, entryType = ''dynamic''\<rparr>,
      \<lparr>macAddress = ''00:1c:73:00:00:99'', interface = ''Router'', vlanId = 10, entryType = ''static''\<rparr>,
      \<lparr>macAddress = ''aa:bb:cc:00:99:aa'', interface = ''Port-Channel10'', vlanId = 4094, entryType = ''dynamic''\<rparr>]"

definition ex_leaf :: leaf_data where
  "ex_leaf =
     \<lparr>show_macs = ex_macs,
      interfaces = [(''Vlan10'', ''up''), (''Vlan30'', ''down''), (''Vlan4094'', ''up''), (''Loopback0'', ''up'')],
      leaf_arp = [\<lparr>address = ''10.0.10.5'', hwAddress = ''aabb.cc00.1122''\<rparr>,
                  \<lparr>address = ''10.0.10.6'', hwAddress = ''aabb.cc00.1122''\<rparr>],
      show_vlans = [''1'', ''10'', ''20'', ''30'', ''4094'']\<rparr>"

definition ex_local :: mac_dict where
  "ex_local = [(''aabb.cc00.1122'', ''Ethernet1'', 10), (''aabb.cc00.3344'', ''Ethernet2'', 10)]"

definition ex_routed :: mac_dict where
  "ex_routed = [(''aabb.cc00.5566'', ''Ethernet3'', 20), (''aabb.cc00.99aa'', ''Port-Channel10'', 4094)]"

text \<open>A router that answers for VLANs 20 and 30, one that cannot be reached, and one
  whose answer for VLAN 20 fails while the one for VLAN 30 would succeed.\<close>

definition ex_router :: "string \<Rightarrow> error + (string \<times> vrf) list" where
  "ex_router cmd =
     (if cmd = ''show arp vrf all interface vlan20''
      then Inr [(''prod'', \<lparr>dynamicEntries = 1,
                   ipV4Neighbors = [\<lparr>address = ''10.0.20.7'', hwAddress = ''aabb.cc00.5566''\<rparr>]\<rparr>)]
      else if cmd = ''show arp vrf all interface vlan30'' then Inr []
      else Inl CommandError)"

definition ex_router_down :: "string \<Rightarrow> error + (string \<times> vrf) list" where
  "ex_router_down cmd = Inl ConnectionError"

definition ex_router_partial :: "string \<Rightarrow> error + (string \<times> vrf) list" where
  "ex_router_partial cmd =
     (if cmd = ''show arp vrf all interface vlan30''
      then Inr [(''prod'', \<lparr>dynamicEntries = 1,
                   ipV4Neighbors = [\<lparr>address = ''10.0.30.9'', hwAddress = ''aabb.cc00.5566''\<rparr>]\<rparr>)]
      else Inl CommandError)"

text \<open>A router whose answer for VLAN 20 holds an address below those of VLAN 10.\<close>

definition ex_router_low :: "string \<Rightarrow> error + (string \<times> vrf) list" where
  "ex_router_low cmd =
     (if cmd = ''show arp vrf all interface vlan20''
      then Inr [(''prod'', \<lparr>dynamicEntries = 1,
                   ipV4Neighbors = [\<lparr>address = ''10.0.9.7'', hwAddress = ''aabb.cc00.5566''\<rparr>]\<rparr>)]
      else if cmd = ''show arp vrf all interface vlan30'' then Inr []
      else Inl CommandError)"

text \<open>Two rows of a neighbour table that bear the same address.\<close>

definition ex_dup_rows :: "arp_entry list" where
  "ex_dup_rows = [\<lparr>address = ''10.0.10.5'', hwAddress = ''aabb.cc00.1122''\<rparr>,
                  \<lparr>address = ''10.0.10.5'', hwAddress = ''aabb.cc00.3344''\<rparr>]"

text \<open>
  A leaf where one host is seen in three VLANs, two of them routed locally, and a leaf
  with entries in the default VLAN and in a peering VLAN; single entries of these tables.
\<close>

definition ex_dup_leaf :: leaf_data where
  "ex_dup_leaf =
     \<lparr>show_macs =
        [\<lparr>macAddress = ''aa:bb:cc:00:11:22'', interface = ''Ethernet1'', vlanId = 10, entryType = ''dynamic''\<rparr>,
         \<lparr>macAddress = ''aa:bb:cc:00:11:22'', interface = ''Ethernet1'', vlanId = 11, entryType = ''dynamic''\<rparr>,
         \<lparr>macAddress = ''aa:bb:cc:00:11:22'', interface = ''Ethernet1'', vlanId = 20, entryType = ''dynamic''\<rparr>],
      interfaces = [(''Vlan10'', ''up''), (''Vlan11'', ''up'')],
      leaf_arp = [],
      show_vlans = [''10'', ''11'', ''20'']\<rparr>"


definition ex_e10 :: mac_entry where
  "ex_e10 = \<lparr>macAddress = ''aa:bb:cc:00:11:22'', interface = ''Ethernet1'', vlanId = 10, entryType = ''dynamic''\<rparr>"

definition ex_e11 :: mac_entry where
  "ex_e11 = \<lparr>macAddress = ''aa:bb:cc:00:11:22'', interface = ''Ethernet1'', vlanId = 11, entryType = ''dynamic''\<rparr>"

definition ex_e20 :: mac_entry where
  "ex_e20 = \<lparr>macAddress = ''aa:bb:cc:00:11:22'', interface = ''Ethernet1'', vlanId = 20, entryType = ''dynamic''\<rparr>"

definition ex_peer :: mac_entry where
  "ex_peer = \<lparr>macAddress = ''aa:bb:cc:00:99:aa'', interface = ''Port-Channel10'', vlanId = 4094, entryType = ''dynamic''\<rparr>"

section \<open>Properties\<close>

subsection \<open>The sample inputs, evaluated\<close>

lemmas regex_defs = starts_with_def vlan_int_match_def leaf_vlan_match_def digits_then_end_def
  is_digit_def at_end_def not_after_409x_def str_int_def str_nat.simps digit_char_def

lemmas ex_defs = ex_leaf_def ex_macs_def ex_local_def ex_routed_def

lemma ex_macadds:
  "macadds (show_macs ex_leaf) =
     [\<lparr>macAddress = ''aa:bb:cc:00:11:22'', interface = ''Ethernet1'', vlanId = 10, entryType = ''dynamic''\<rparr>,
      \<lparr>macAddress = ''aa:bb:cc:00:33:44'', interface = ''Ethernet2'', vlanId = 10, entryType = ''dynamic''\<rparr>,
      \<lparr>macAddress = ''aa:bb:cc:00:55:66'', interface = ''Ethernet3'', vlanId = 20, entryType = ''dynamic''\<rparr>,
      \<lparr>macAddress = ''aa:bb:cc:00:99:aa'', interface = ''Port-Channel10'', vlanId = 4094, entryType = ''dynamic''\<rparr>]"
  by (simp add: macadds_def ex_defs regex_defs)

lemma ex_vlan_ints: "vlan_ints (interfaces ex_leaf) = [''Vlan10'']"
  by (simp add: vlan_ints_def ex_defs regex_defs)

lemma ex_leaf_vlans: "leaf_vlans (show_vlans ex_leaf) = [''10'', ''20'', ''30'']"
  by (simp add: leaf_vlans_def ex_defs regex_defs)

lemma ex_router_vlans:
  "router_vlans (leaf_vlans (show_vlans ex_leaf)) (vlan_ints (interfaces ex_leaf)) = [''20'', ''30'']"
  by (simp add: ex_vlan_ints ex_leaf_vlans router_vlans_def)

lemma ex_local_macs:
  "local_macs (vlan_ints (interfaces ex_leaf)) (macadds (show_macs ex_leaf)) = Inr ex_local"
  by (simp add: ex_vlan_ints ex_macadds local_macs_def mac_format_def ex_local_def str_int_def
      str_nat.simps digit_char_def)

lemma ex_routed_macs:
  "routed_macs (vlan_ints (interfaces ex_leaf)) (macadds (show_macs ex_leaf)) = Inr ex_routed"
  by (simp add: ex_vlan_ints ex_macadds routed_macs_def mac_format_def ex_routed_def str_int_def
      str_nat.simps digit_char_def)

lemma ex_arp_dict:
  "arp_dict (leaf_arp ex_leaf) =
     [(''10.0.10.5'', ''aabb.cc00.1122''), (''10.0.10.6'', ''aabb.cc00.1122'')]"
  by (simp add: arp_dict_def ex_leaf_def)

lemma ex_resolve_local:
  "resolve_loop ex_local (arp_dict (leaf_arp ex_leaf)) ([], []) =
     ([noip_line ''aabb.cc00.3344'' (''Ethernet2'', 10)], [''10.0.10.5'', ''10.0.10.6''])"
  by (simp add: ex_arp_dict ex_local_def ipadd_def)

subsection \<open>The resolution loops\<close>

lemma ipadd_set: "set (ipadd arp mac) = {ip. (ip, mac) \<in> set arp}"
  by (induction arp) (auto simp: ipadd_def)

lemma ipadd_Nil_iff: "ipadd arp mac = [] \<longleftrightarrow> mac \<notin> snd ` set arp"
proof -
  have "ipadd arp mac = [] \<longleftrightarrow> set (ipadd arp mac) = {}" by simp
  also have "\<dots> \<longleftrightarrow> mac \<notin> snd ` set arp" by (force simp: ipadd_set)
  finally show ?thesis .
qed

lemma resolve_loop_contributions:
  "resolve_loop part arp (noip, ips) =
     (noip @ concat (map (\<lambda>(mac, info). if mac \<in> snd ` set arp then [] else [noip_line mac info]) part),
      ips @ concat (map (\<lambda>(mac, info). ipadd arp mac) part))"
proof (induction part arbitrary: noip ips)
  case Nil
  then show ?case by simp
next
  case (Cons p part)
  obtain mac info where p: "p = (mac, info)" by (cases p)
  show ?case
  proof (cases "mac \<in> snd ` set arp")
    case True
    then show ?thesis using Cons.IH [of noip "ips @ ipadd arp mac"] by (simp add: p)
  next
    case False
    then have "ipadd arp mac = []" by (simp add: ipadd_Nil_iff)
    then show ?thesis using False Cons.IH [of "noip @ [noip_line mac info]" ips] by (simp add: p)
  qed
qed

lemma mac_comprehension_distinct:
  "mac_comprehension cond ms d = Inr d' \<Longrightarrow> distinct (map fst d) \<Longrightarrow> distinct (map fst d')"
  by (induction ms arbitrary: d) (auto split: if_splits sum.splits simp: distinct_update)

text \<open>
  C1.  The loop over a partition adds, for every key in turn, either the line of the
  no-IP file (when no address of the ARP index maps to the key) or the addresses that map
  to it, all of them and at least one; never both and never nothing.  The keys of a
  partition are distinct, so every key has one turn.
\<close>

theorem resolution_completeness:
  "resolve_loop part arp (noip, ips) =
     (noip @ concat (map (\<lambda>(m, info). if m \<in> snd ` set arp then [] else [noip_line m info]) part),
      ips @ concat (map (\<lambda>(m, info). ipadd arp m) part))
   \<and> (\<forall>(m, info) \<in> set part.
         set (ipadd arp m) = {ip. (ip, m) \<in> set arp} \<and>
         (if m \<in> snd ` set arp then ipadd arp m \<noteq> [] else ipadd arp m = []))
   \<and> (local_macs vi ms = Inr part \<or> routed_macs vi ms = Inr part \<longrightarrow> distinct (map fst part))"
proof (intro conjI)
  show "resolve_loop part arp (noip, ips) =
     (noip @ concat (map (\<lambda>(m, info). if m \<in> snd ` set arp then [] else [noip_line m info]) part),
      ips @ concat (map (\<lambda>(m, info). ipadd arp m) part))"
    by (rule resolve_loop_contributions)
next
  show "\<forall>(m, info) \<in> set part.
         set (ipadd arp m) = {ip. (ip, m) \<in> set arp} \<and>
         (if m \<in> snd ` set arp then ipadd arp m \<noteq> [] else ipadd arp m = [])"
    by (auto simp: ipadd_set ipadd_Nil_iff)
next
  show "local_macs vi ms = Inr part \<or> routed_macs vi ms = Inr part \<longrightarrow> distinct (map fst part)"
    using mac_comprehension_distinct [of _ ms "[]" part]
    by (auto simp: local_macs_def routed_macs_def)
qed

theorem resolution_completeness_witness:
  "local_macs (vlan_ints (interfaces ex_leaf)) (macadds (show_macs ex_leaf)) = Inr ex_local
   \<and> distinct (map fst ex_local)
   \<and> resolve_loop ex_local (arp_dict (leaf_arp ex_leaf)) ([], []) =
       ([noip_line ''aabb.cc00.3344'' (''Ethernet2'', 10)], [''10.0.10.5'', ''10.0.10.6''])
   \<and> ipadd (arp_dict (leaf_arp ex_leaf)) ''aabb.cc00.1122'' = [''10.0.10.5'', ''10.0.10.6'']
   \<and> ipadd (arp_dict (leaf_arp ex_leaf)) ''aabb.cc00.3344'' = []"
proof -
  have d: "distinct (map fst ex_local)"
    using resolution_completeness [of ex_local "arp_dict (leaf_arp ex_leaf)" "[]" "[]"
        "vlan_ints (interfaces ex_leaf)" "macadds (show_macs ex_leaf)"] ex_local_macs
    by blast
  have i1: "ipadd (arp_dict (leaf_arp ex_leaf)) ''aabb.cc00.1122'' = [''10.0.10.5'', ''10.0.10.6'']"
    by (simp add: ex_arp_dict ipadd_def)
  have i2: "ipadd (arp_dict (leaf_arp ex_leaf)) ''aabb.cc00.3344'' = []"
    by (simp add: ex_arp_dict ipadd_def)
  show ?thesis using ex_local_macs d ex_resolve_local i1 i2 by blast
qed

subsection \<open>The ARP indexes\<close>

lemma store_rows_distinct:
  "distinct (map fst d) \<Longrightarrow> distinct (map fst (store_rows rows d))"
  unfolding store_rows_def
  by (induction rows arbitrary: d) (simp_all add: distinct_update)

lemma store_rows_append: "store_rows (xs @ ys) d = store_rows ys (store_rows xs d)"
  by (simp add: store_rows_def)

lemma store_rows_lookup:
  "map_of (store_rows rows d) ip =
     (case filter (\<lambda>r. address r = ip) rows of
        [] \<Rightarrow> map_of d ip
      | r # rs \<Rightarrow> Some (hwAddress (last (r # rs))))"
  unfolding store_rows_def
proof (induction rows arbitrary: d)
  case Nil
  then show ?case by simp
next
  case (Cons x rows)
  show ?case
    by (simp add: Cons.IH update_conv' split: list.splits)
qed

lemma vrf_loop_rows: "vrf_loop vrfs d = store_rows (vrf_rows vrfs) d"
  by (induction vrfs arbitrary: d) (auto simp: vrf_loop_def vrf_rows_def store_rows_def)

lemma arp_dict_store_rows: "arp_dict rows = store_rows rows []"
  by (simp add: arp_dict_def store_rows_def)

lemma store_rows_member:
  "distinct (map fst d) \<Longrightarrow>
   (ip, hw) \<in> set (store_rows rows d) \<longleftrightarrow> map_of (store_rows rows d) ip = Some hw"
  using store_rows_distinct [of d rows] by simp

lemma shadowed_absent:
  assumes rows: "rows = pre @ r # mid @ r' # post"
    and m: "hwAddress r = m"
    and same: "address r' = address r"
    and other: "hwAddress r' \<noteq> m"
    and only: "\<forall>x \<in> set (pre @ mid @ post). hwAddress x \<noteq> m"
  shows "m \<notin> snd ` set (arp_dict rows)"
proof
  assume "m \<in> snd ` set (arp_dict rows)"
  then obtain ip where "(ip, m) \<in> set (arp_dict rows)" by force
  then have look: "map_of (store_rows rows []) ip = Some m"
    using store_rows_member [of "[]" ip m rows] by (simp add: arp_dict_store_rows)
  let ?f = "filter (\<lambda>r. address r = ip) rows"
  from look have ne: "?f \<noteq> []" and last: "hwAddress (last ?f) = m"
    by (auto simp: store_rows_lookup split: list.splits)
  define x where "x = last ?f"
  have "x \<in> set ?f" unfolding x_def using ne by (rule last_in_set)
  then have in_rows: "x \<in> set rows" and addr: "address x = ip" by auto
  have hw: "hwAddress x = m" using last by (simp add: x_def)
  have "set rows = set pre \<union> {r} \<union> set mid \<union> {r'} \<union> set post"
    by (auto simp: rows)
  then have "x = r" using in_rows hw only other by auto
  then have ip: "ip = address r" using addr by simp
  let ?g = "filter (\<lambda>r. address r = ip) post"
  have split: "?f = filter (\<lambda>r. address r = ip) (pre @ r # mid) @ (r' # ?g)"
    using same ip by (simp add: rows)
  have "last ?f = last (r' # ?g)"
    unfolding split by (rule last_appendR) simp
  moreover have "last (r' # ?g) \<in> set (r' # ?g)" by (rule last_in_set) simp
  ultimately have "x \<in> set (r' # post)" by (auto simp: x_def)
  then show False using hw other only by auto
qed

lemma router_loop_all_ok:
  "\<forall>v \<in> set vlans. router (show_arp_command v) = Inr (t v) \<Longrightarrow>
   router_loop router vlans d = Inr (store_rows (concat (map (\<lambda>v. vrf_rows (t v)) vlans)) d)"
  by (induction vlans arbitrary: d) (simp_all add: vrf_loop_rows store_rows_append store_rows_def)

lemma router_loop_first_failure:
  "\<forall>u \<in> set pre. \<exists>t. router (show_arp_command u) = Inr t \<Longrightarrow>
   router (show_arp_command v) = Inl e \<Longrightarrow>
   router_loop router (pre @ v # post) d = Inl e"
  by (induction pre arbitrary: d) auto

lemma router_loop_Inr_all_ok:
  "router_loop router vlans d = Inr d' \<Longrightarrow> \<forall>v \<in> set vlans. \<exists>t. router (show_arp_command v) = Inr t"
  by (induction vlans arbitrary: d) (auto split: sum.splits)

text \<open>
  C10.  Both ARP indexes are built by assignment to the key that is the network address,
  so the index maps every address to the hardware address of the last row that bears it
  (for the router's index, over the rows of all answers in the order they are stored).
  A hardware address whose only row shares its address with a later row of another
  hardware address is therefore not a value of the index, and the resolution loop writes
  its no-IP line.
\<close>

theorem arp_index_last_write_wins:
  "map_of (arp_dict rows) ip =
     (case filter (\<lambda>r. address r = ip) rows of
        [] \<Rightarrow> None
      | r # rs \<Rightarrow> Some (hwAddress (last (r # rs))))
   \<and> map_of (store_rows rows d) ip =
     (case filter (\<lambda>r. address r = ip) rows of
        [] \<Rightarrow> map_of d ip
      | r # rs \<Rightarrow> Some (hwAddress (last (r # rs))))
   \<and> distinct (map fst (arp_dict rows))
   \<and> ((\<forall>v \<in> set vlans. router (show_arp_command v) = Inr (t v)) \<longrightarrow>
        router_loop router vlans [] = Inr (arp_dict (concat (map (\<lambda>v. vrf_rows (t v)) vlans))))
   \<and> (rows = pre @ r # mid @ r' # post \<and> hwAddress r = m \<and> address r' = address r
        \<and> hwAddress r' \<noteq> m \<and> (\<forall>x \<in> set (pre @ mid @ post). hwAddress x \<noteq> m) \<longrightarrow>
        m \<notin> snd ` set (arp_dict rows)
        \<and> resolve_loop [(m, info)] (arp_dict rows) (noip, ips) = (noip @ [noip_line m info], ips))"
proof (intro conjI impI)
  show "map_of (arp_dict rows) ip =
     (case filter (\<lambda>r. address r = ip) rows of
        [] \<Rightarrow> None
      | r # rs \<Rightarrow> Some (hwAddress (last (r # rs))))"
    by (simp add: arp_dict_store_rows store_rows_lookup split: list.splits)
next
  show "map_of (store_rows rows d) ip =
     (case filter (\<lambda>r. address r = ip) rows of
        [] \<Rightarrow> map_of d ip
      | r # rs \<Rightarrow> Some (hwAddress (last (r # rs))))"
    by (rule store_rows_lookup)
next
  show "distinct (map fst (arp_dict rows))"
    using store_rows_distinct [of "[]" rows] by (simp add: arp_dict_store_rows)
next
  assume "\<forall>v \<in> set vlans. router (show_arp_command v) = Inr (t v)"
  then show "router_loop router vlans [] = Inr (arp_dict (concat (map (\<lambda>v. vrf_rows (t v)) vlans)))"
    by (simp add: router_loop_all_ok arp_dict_store_rows)
next
  assume a: "rows = pre @ r # mid @ r' # post \<and> hwAddress r = m \<and> address r' = address r
        \<and> hwAddress r' \<noteq> m \<and> (\<forall>x \<in> set (pre @ mid @ post). hwAddress x \<noteq> m)"
  then show absent: "m \<notin> snd ` set (arp_dict rows)"
    using shadowed_absent [of rows pre r mid r' post m] by blast
  then show "resolve_loop [(m, info)] (arp_dict rows) (noip, ips) = (noip @ [noip_line m info], ips)"
    by simp
qed

theorem arp_index_last_write_wins_witness:
  "arp_dict ex_dup_rows = [(''10.0.10.5'', ''aabb.cc00.3344'')]
   \<and> ''aabb.cc00.1122'' \<notin> snd ` set (arp_dict ex_dup_rows)
   \<and> resolve_loop [(''aabb.cc00.1122'', ''Ethernet1'', 10)] (arp_dict ex_dup_rows) ([], []) =
       ([noip_line ''aabb.cc00.1122'' (''Ethernet1'', 10)], [])
   \<and> router_loop ex_router [''20'', ''30''] [] = Inr [(''10.0.20.7'', ''aabb.cc00.5566'')]"
proof -
  have a: "arp_dict ex_dup_rows = [(''10.0.10.5'', ''aabb.cc00.3344'')]"
    by (simp add: arp_dict_def ex_dup_rows_def)
  have h: "ex_dup_rows = [] @ \<lparr>address = ''10.0.10.5'', hwAddress = ''aabb.cc00.1122''\<rparr> # []
      @ \<lparr>address = ''10.0.10.5'', hwAddress = ''aabb.cc00.3344''\<rparr> # []"
    by (simp add: ex_dup_rows_def)
  have q: "\<forall>v \<in> set [''20'', ''30'']. ex_router (show_arp_command v) =
      Inr (if v = ''20'' then [(''prod'', \<lparr>dynamicEntries = 1,
                   ipV4Neighbors = [\<lparr>address = ''10.0.20.7'', hwAddress = ''aabb.cc00.5566''\<rparr>]\<rparr>)] else [])"
    by (simp add: ex_router_def show_arp_command_def)
  note inst = arp_index_last_write_wins [of ex_dup_rows "''10.0.10.5''" "[]" "[''20'', ''30'']" ex_router
      "\<lambda>v. if v = ''20'' then [(''prod'', \<lparr>dynamicEntries = 1,
                   ipV4Neighbors = [\<lparr>address = ''10.0.20.7'', hwAddress = ''aabb.cc00.5566''\<rparr>]\<rparr>)] else []"
      "[]" "\<lparr>address = ''10.0.10.5'', hwAddress = ''aabb.cc00.1122''\<rparr>" "[]"
      "\<lparr>address = ''10.0.10.5'', hwAddress = ''aabb.cc00.3344''\<rparr>" "[]" "''aabb.cc00.1122''"
      "(''Ethernet1'', 10)" "[]" "[]"]
  have b: "''aabb.cc00.1122'' \<notin> snd ` set (arp_dict ex_dup_rows)
     \<and> resolve_loop [(''aabb.cc00.1122'', ''Ethernet1'', 10)] (arp_dict ex_dup_rows) ([], []) =
       ([noip_line ''aabb.cc00.1122'' (''Ethernet1'', 10)], [])"
    using inst h by simp
  have c: "router_loop ex_router [''20'', ''30''] [] = Inr [(''10.0.20.7'', ''aabb.cc00.5566'')]"
    using inst q by (simp add: vrf_rows_def arp_dict_def)
  show ?thesis using a b c by blast
qed

subsection \<open>The router loop and the end of the run\<close>

lemma ex_router_partial_loop: "router_loop ex_router_partial [''20'', ''30''] [] = Inl CommandError"
  by (simp add: ex_router_partial_def show_arp_command_def)

lemma run_router_failure:
  assumes lm: "local_macs (vlan_ints (interfaces leaf)) (macadds (show_macs leaf)) = Inr lm"
    and rm: "routed_macs (vlan_ints (interfaces leaf)) (macadds (show_macs leaf)) = Inr rm"
    and fail: "router_loop router (router_vlans (leaf_vlans (show_vlans leaf)) (vlan_ints (interfaces leaf))) [] = Inl e"
  shows "run leaf router resolver =
     (Some e,
      concat (map (\<lambda>(m, info). if m \<in> snd ` set (arp_dict (leaf_arp leaf)) then [] else [noip_line m info]) lm),
      [])"
  using lm rm fail by (simp add: run_def resolve_loop_contributions)

text \<open>
  C2 fails as stated: with VLANs 20 and 30 to query, the query for VLAN 20 raising and
  the one for VLAN 30 holding a row, the loop raises and the run ends; the row of VLAN 30
  is not aggregated.
\<close>

theorem remote_failure_aborts_counterexample:
  "router_vlans (leaf_vlans (show_vlans ex_leaf)) (vlan_ints (interfaces ex_leaf)) = [''20'', ''30'']
   \<and> ex_router_partial (show_arp_command ''20'') = Inl CommandError
   \<and> ex_router_partial (show_arp_command ''30'') =
       Inr [(''prod'', \<lparr>dynamicEntries = 1,
              ipV4Neighbors = [\<lparr>address = ''10.0.30.9'', hwAddress = ''aabb.cc00.5566''\<rparr>]\<rparr>)]
   \<and> router_loop ex_router_partial [''20'', ''30''] [] = Inl CommandError
   \<and> run ex_leaf ex_router_partial ex_resolver =
       (Some CommandError, [noip_line ''aabb.cc00.3344'' (''Ethernet2'', 10)], [])"
proof -
  have a: "ex_router_partial (show_arp_command ''20'') = Inl CommandError"
    by (simp add: ex_router_partial_def show_arp_command_def)
  have b: "ex_router_partial (show_arp_command ''30'') =
       Inr [(''prod'', \<lparr>dynamicEntries = 1,
              ipV4Neighbors = [\<lparr>address = ''10.0.30.9'', hwAddress = ''aabb.cc00.5566''\<rparr>]\<rparr>)]"
    by (simp add: ex_router_partial_def show_arp_command_def)
  have c: "run ex_leaf ex_router_partial ex_resolver =
       (Some CommandError, [noip_line ''aabb.cc00.3344'' (''Ethernet2'', 10)], [])"
    using ex_local_macs ex_routed_macs ex_router_partial_loop
    by (simp add: run_router_failure ex_router_vlans ex_arp_dict ex_local_def)
  show ?thesis using ex_router_vlans a b ex_router_partial_loop c by blast
qed

text \<open>
  C2, as the code has it.  The query of the router loop is not guarded.  The first query
  that raises ends the loop with that exception, whatever the later VLANs would have
  answered: they are not queried and no index is produced.  Only when every query
  succeeds is the index built, from the rows of all answers (the VRFs with a positive
  count of dynamic entries) in the order of the VLANs.
\<close>

theorem remote_failure_aborts:
  "((\<forall>u \<in> set pre. \<exists>t. router (show_arp_command u) = Inr t) \<and> router (show_arp_command v) = Inl e
      \<longrightarrow> router_loop router (pre @ v # post) d = Inl e)
   \<and> ((\<forall>v \<in> set vlans. router (show_arp_command v) = Inr (t v))
      \<longrightarrow> router_loop router vlans d = Inr (store_rows (concat (map (\<lambda>v. vrf_rows (t v)) vlans)) d))
   \<and> (router_loop router vlans d = Inr d'
      \<longrightarrow> (\<forall>v \<in> set vlans. \<exists>t. router (show_arp_command v) = Inr t))"
  using router_loop_first_failure [of pre router v e post d]
    router_loop_all_ok [of vlans router t d]
    router_loop_Inr_all_ok [of router vlans d d']
  by blast

theorem remote_failure_aborts_witness:
  "ex_router_partial (show_arp_command ''20'') = Inl CommandError
   \<and> router_loop ex_router_partial ([] @ ''20'' # [''30'']) [] = Inl CommandError
   \<and> ex_router (show_arp_command ''20'') =
       Inr [(''prod'', \<lparr>dynamicEntries = 1,
              ipV4Neighbors = [\<lparr>address = ''10.0.20.7'', hwAddress = ''aabb.cc00.5566''\<rparr>]\<rparr>)]
   \<and> ex_router (show_arp_command ''30'') = Inr []
   \<and> router_loop ex_router [''20'', ''30''] [] = Inr [(''10.0.20.7'', ''aabb.cc00.5566'')]"
proof -
  let ?t = "\<lambda>v. if v = ''20'' then [(''prod'', \<lparr>dynamicEntries = 1,
                   ipV4Neighbors = [\<lparr>address = ''10.0.20.7'', hwAddress = ''aabb.cc00.5566''\<rparr>]\<rparr>)] else []"
  have a: "ex_router_partial (show_arp_command ''20'') = Inl CommandError"
    by (simp add: ex_router_partial_def show_arp_command_def)
  have q: "\<forall>v \<in> set [''20'', ''30'']. ex_router (show_arp_command v) = Inr (?t v)"
    by (simp add: ex_router_def show_arp_command_def)
  note inst = remote_failure_aborts [of "[]" ex_router_partial "''20''" CommandError "[''30'']" "[]"
      "[''20'', ''30'']" ?t]
  have b: "router_loop ex_router_partial ([] @ ''20'' # [''30'']) [] = Inl CommandError"
    using inst a by simp
  note inst2 = remote_failure_aborts [of "[]" ex_router "''20''" CommandError "[''30'']" "[]"
      "[''20'', ''30'']" ?t]
  have c: "router_loop ex_router [''20'', ''30''] [] = Inr [(''10.0.20.7'', ''aabb.cc00.5566'')]"
    using inst2 q by (simp add: vrf_rows_def store_rows_def)
  have d: "ex_router (show_arp_command ''20'') =
       Inr [(''prod'', \<lparr>dynamicEntries = 1,
              ipV4Neighbors = [\<lparr>address = ''10.0.20.7'', hwAddress = ''aabb.cc00.5566''\<rparr>]\<rparr>)]"
    "ex_router (show_arp_command ''30'') = Inr []"
    by (simp_all add: ex_router_def show_arp_command_def)
  show ?thesis using a b c d by blast
qed

text \<open>
  C9, as the code has it.  When a query of the router raises, the run ends with that
  exception and no line of the IP report is written, nor any no-IP line of the remote
  partition; the no-IP lines of the local partition were written before the first query
  and stay in the report.
\<close>

theorem router_abort_keeps_local_noip:
  assumes "local_macs (vlan_ints (interfaces leaf)) (macadds (show_macs leaf)) = Inr lm"
    and "routed_macs (vlan_ints (interfaces leaf)) (macadds (show_macs leaf)) = Inr rm"
    and "router_vlans (leaf_vlans (show_vlans leaf)) (vlan_ints (interfaces leaf)) = pre @ v # post"
    and "\<forall>u \<in> set pre. \<exists>t. router (show_arp_command u) = Inr t"
    and "router (show_arp_command v) = Inl e"
  shows "run leaf router resolver =
     (Some e,
      concat (map (\<lambda>(m, info). if m \<in> snd ` set (arp_dict (leaf_arp leaf)) then [] else [noip_line m info]) lm),
      [])"
  using assms router_loop_first_failure [of pre router v e post "[]"]
  by (simp add: run_router_failure)

text \<open>
  C9 fails as stated: the router cannot be reached, and the no-IP file already holds
  the line of the silent host of VLAN 10.
\<close>

theorem router_abort_keeps_local_noip_counterexample:
  "router_vlans (leaf_vlans (show_vlans ex_leaf)) (vlan_ints (interfaces ex_leaf)) = [''20'', ''30'']
   \<and> ex_router_down (show_arp_command ''20'') = Inl ConnectionError
   \<and> run ex_leaf ex_router_down ex_resolver =
       (Some ConnectionError, [noip_line ''aabb.cc00.3344'' (''Ethernet2'', 10)], [])"
proof -
  have "router_loop ex_router_down [''20'', ''30''] [] = Inl ConnectionError"
    by (simp add: ex_router_down_def)
  then have "run ex_leaf ex_router_down ex_resolver =
       (Some ConnectionError, [noip_line ''aabb.cc00.3344'' (''Ethernet2'', 10)], [])"
    using ex_local_macs ex_routed_macs
    by (simp add: run_router_failure ex_router_vlans ex_arp_dict ex_local_def)
  then show ?thesis by (simp add: ex_router_vlans ex_router_down_def)
qed

theorem router_abort_keeps_local_noip_witness:
  "local_macs (vlan_ints (interfaces ex_leaf)) (macadds (show_macs ex_leaf)) = Inr ex_local
   \<and> routed_macs (vlan_ints (interfaces ex_leaf)) (macadds (show_macs ex_leaf)) = Inr ex_routed
   \<and> router_vlans (leaf_vlans (show_vlans ex_leaf)) (vlan_ints (interfaces ex_leaf)) = [] @ ''20'' # [''30'']
   \<and> ex_router_down (show_arp_command ''20'') = Inl ConnectionError
   \<and> run ex_leaf ex_router_down ex_resolver =
       (Some ConnectionError, [noip_line ''aabb.cc00.3344'' (''Ethernet2'', 10)], [])"
proof -
  have v: "router_vlans (leaf_vlans (show_vlans ex_leaf)) (vlan_ints (interfaces ex_leaf)) = [] @ ''20'' # [''30'']"
    by (simp add: ex_router_vlans)
  have f: "ex_router_down (show_arp_command ''20'') = Inl ConnectionError"
    by (simp add: ex_router_down_def)
  have "run ex_leaf ex_router_down ex_resolver =
     (Some ConnectionError,
      concat (map (\<lambda>(m, info). if m \<in> snd ` set (arp_dict (leaf_arp ex_leaf)) then [] else [noip_line m info]) ex_local),
      [])"
    using router_abort_keeps_local_noip [of ex_leaf ex_local ex_routed "[]" "''20''" "[''30'']"
        ex_router_down ConnectionError ex_resolver] ex_local_macs ex_routed_macs v f
    by simp
  then have r: "run ex_leaf ex_router_down ex_resolver =
       (Some ConnectionError, [noip_line ''aabb.cc00.3344'' (''Ethernet2'', 10)], [])"
    by (simp add: ex_arp_dict ex_local_def)
  show ?thesis using ex_local_macs ex_routed_macs v f r by blast
qed

subsection \<open>The sorted addresses\<close>

lemma sort_keys_Inr:
  "sort_keys ips = Inr ks \<Longrightarrow> length ks = length ips \<and> (\<forall>(k, ip) \<in> set (zip ks ips). IPv4Address ip = Inr k)"
  by (induction ips arbitrary: ks) (auto split: sum.splits)

lemma sort_keys_total:
  "\<forall>ip \<in> set ips. \<exists>k. IPv4Address ip = Inr k \<Longrightarrow> \<exists>ks. sort_keys ips = Inr ks"
  by (induction ips) auto

lemma sort_keys_Inl:
  "sort_keys ips = Inl e \<Longrightarrow> \<exists>ip \<in> set ips. IPv4Address ip = Inl e"
  by (induction ips) (auto split: sum.splits)

lemma sorted_ips_props:
  assumes "sorted_ips ips = Inr s"
  shows "(\<exists>ks. map IPv4Address s = map Inr ks \<and> sorted ks)
    \<and> mset s = mset ips
    \<and> (\<forall>k. filter (\<lambda>ip. IPv4Address ip = Inr k) s = filter (\<lambda>ip. IPv4Address ip = Inr k) ips)"
proof -
  from assms obtain ks where ks: "sort_keys ips = Inr ks"
    and s: "s = map snd (sort_key fst (zip ks ips))"
    by (auto simp: sorted_ips_def split: sum.splits)
  let ?z = "zip ks ips"
  let ?srt = "sort_key fst ?z"
  have len: "length ks = length ips" and key: "\<forall>(k, ip) \<in> set ?z. IPv4Address ip = Inr k"
    using sort_keys_Inr [OF ks] by auto
  have key': "\<And>p. p \<in> set ?srt \<Longrightarrow> IPv4Address (snd p) = Inr (fst p)"
    using key by auto
  have "map IPv4Address s = map Inr (map fst ?srt)"
    using key' by (simp add: s)
  moreover have "sorted (map fst ?srt)" by (rule sorted_sort_key)
  ultimately have 1: "\<exists>ks. map IPv4Address s = map Inr ks \<and> sorted ks" by blast
  have "mset s = image_mset snd (mset ?z)" by (simp add: s)
  also have "\<dots> = mset (map snd ?z)" by simp
  also have "\<dots> = mset ips" using len by simp
  finally have 2: "mset s = mset ips" .
  have 3: "filter (\<lambda>ip. IPv4Address ip = Inr k) s = filter (\<lambda>ip. IPv4Address ip = Inr k) ips" for k
  proof -
    have "filter (\<lambda>ip. IPv4Address ip = Inr k) s = map snd (filter (\<lambda>p. IPv4Address (snd p) = Inr k) ?srt)"
      by (simp add: s filter_map comp_def)
    also have "filter (\<lambda>p. IPv4Address (snd p) = Inr k) ?srt = filter (\<lambda>p. fst p = k) ?srt"
      using key' by (intro filter_cong) auto
    also have "\<dots> = filter (\<lambda>p. fst p = k) ?z" by (rule sort_key_stable)
    also have "\<dots> = filter (\<lambda>p. IPv4Address (snd p) = Inr k) ?z"
      using key by (intro filter_cong) auto
    also have "map snd \<dots> = filter (\<lambda>ip. IPv4Address ip = Inr k) (map snd ?z)"
      by (simp add: filter_map comp_def)
    also have "map snd ?z = ips" using len by simp
    finally show ?thesis .
  qed
  show ?thesis using 1 2 3 by blast
qed

lemma ex_addr:
  "IPv4Address ''10.0.0.20'' = Inr 167772180"
  "IPv4Address ''10.0.0.3'' = Inr 167772163"
  "IPv4Address ''10.0.0.100'' = Inr 167772260"
  by (simp_all add: IPv4Address_def parse_octet_def int_of_digits_def digit_val_def is_digit_def)

lemma ex_sorted:
  "sorted_ips [''10.0.0.20'', ''10.0.0.3'', ''10.0.0.3'', ''10.0.0.100'']
     = Inr [''10.0.0.3'', ''10.0.0.3'', ''10.0.0.20'', ''10.0.0.100'']"
  by (simp add: sorted_ips_def ex_addr)


lemma run_after_router:
  assumes "local_macs (vlan_ints (interfaces leaf)) (macadds (show_macs leaf)) = Inr lm"
    and "routed_macs (vlan_ints (interfaces leaf)) (macadds (show_macs leaf)) = Inr rm"
    and "router_loop router (router_vlans (leaf_vlans (show_vlans leaf)) (vlan_ints (interfaces leaf))) [] = Inr rad"
  shows "run leaf router resolver =
     (case sorted_ips (snd (resolve_loop rm rad (resolve_loop lm (arp_dict (leaf_arp leaf)) ([], [])))) of
        Inl e \<Rightarrow> (Some e, fst (resolve_loop rm rad (resolve_loop lm (arp_dict (leaf_arp leaf)) ([], []))), [])
      | Inr s \<Rightarrow> (None, fst (resolve_loop rm rad (resolve_loop lm (arp_dict (leaf_arp leaf)) ([], []))),
                  map (name_line resolver) s))"
  using assms by (simp add: run_def Let_def ip_report_def split: sum.splits)

lemma ex_router_answers:
  "ex_router (show_arp_command ''20'') =
     Inr [(''prod'', \<lparr>dynamicEntries = 1,
            ipV4Neighbors = [\<lparr>address = ''10.0.20.7'', hwAddress = ''aabb.cc00.5566''\<rparr>]\<rparr>)]"
  "ex_router (show_arp_command ''30'') = Inr []"
  by (simp_all add: ex_router_def show_arp_command_def)

lemma ex_router_step:
  "router_loop ex_router [''20'', ''30''] [] =
     router_loop ex_router [''30'']
       (vrf_loop [(''prod'', \<lparr>dynamicEntries = 1,
          ipV4Neighbors = [\<lparr>address = ''10.0.20.7'', hwAddress = ''aabb.cc00.5566''\<rparr>]\<rparr>)] [])"
  by (simp add: ex_router_answers)

lemma ex_router_last: "router_loop ex_router [''30''] d = Inr d"
  by (simp add: ex_router_answers vrf_loop_def)

lemma ex_vrf_loop:
  "vrf_loop [(''prod'', \<lparr>dynamicEntries = 1,
      ipV4Neighbors = [\<lparr>address = ''10.0.20.7'', hwAddress = ''aabb.cc00.5566''\<rparr>]\<rparr>)] []
     = [(''10.0.20.7'', ''aabb.cc00.5566'')]"
  by (simp add: vrf_loop_def store_rows_def)

lemma ex_router_loop: "router_loop ex_router [''20'', ''30''] [] = Inr [(''10.0.20.7'', ''aabb.cc00.5566'')]"
  by (simp only: ex_router_step ex_router_last ex_vrf_loop)

lemma ex_resolve_routed:
  "resolve_loop ex_routed [(''10.0.20.7'', ''aabb.cc00.5566'')]
      ([noip_line ''aabb.cc00.3344'' (''Ethernet2'', 10)], [''10.0.10.5'', ''10.0.10.6'']) =
     ([noip_line ''aabb.cc00.3344'' (''Ethernet2'', 10), noip_line ''aabb.cc00.99aa'' (''Port-Channel10'', 4094)],
      [''10.0.10.5'', ''10.0.10.6'', ''10.0.20.7''])"
  by (simp add: ex_routed_def ipadd_def)

lemma ex_addr_hosts:
  "IPv4Address ''10.0.10.5'' = Inr 167774725"
  "IPv4Address ''10.0.10.6'' = Inr 167774726"
  "IPv4Address ''10.0.20.7'' = Inr 167777287"
  by (simp_all add: IPv4Address_def parse_octet_def int_of_digits_def digit_val_def is_digit_def)

lemma ex_sorted_hosts:
  "sorted_ips [''10.0.10.5'', ''10.0.10.6'', ''10.0.20.7''] = Inr [''10.0.10.5'', ''10.0.10.6'', ''10.0.20.7'']"
  by (simp add: sorted_ips_def ex_addr_hosts)

text \<open>
  C5 fails in its example: the four addresses come out as .3, .3, .20, .100, the numeric
  order, and not as .3, .3, .100, .20, which is the order of the texts.
\<close>

theorem sorted_ips_numeric_stable_counterexample:
  "sorted_ips [''10.0.0.20'', ''10.0.0.3'', ''10.0.0.3'', ''10.0.0.100'']
     \<noteq> Inr [''10.0.0.3'', ''10.0.0.3'', ''10.0.0.100'', ''10.0.0.20'']"
  by (simp add: ex_sorted)

lemma ex_router_low_answers:
  "ex_router_low (show_arp_command ''20'') =
     Inr [(''prod'', \<lparr>dynamicEntries = 1,
            ipV4Neighbors = [\<lparr>address = ''10.0.9.7'', hwAddress = ''aabb.cc00.5566''\<rparr>]\<rparr>)]"
  "ex_router_low (show_arp_command ''30'') = Inr []"
  by (simp_all add: ex_router_low_def show_arp_command_def)

lemma ex_router_low_step:
  "router_loop ex_router_low [''20'', ''30''] [] =
     router_loop ex_router_low [''30'']
       (vrf_loop [(''prod'', \<lparr>dynamicEntries = 1,
          ipV4Neighbors = [\<lparr>address = ''10.0.9.7'', hwAddress = ''aabb.cc00.5566''\<rparr>]\<rparr>)] [])"
  by (simp add: ex_router_low_answers)

lemma ex_router_low_last: "router_loop ex_router_low [''30''] d = Inr d"
  by (simp add: ex_router_low_answers vrf_loop_def)

lemma ex_vrf_loop_low:
  "vrf_loop [(''prod'', \<lparr>dynamicEntries = 1,
      ipV4Neighbors = [\<lparr>address = ''10.0.9.7'', hwAddress = ''aabb.cc00.5566''\<rparr>]\<rparr>)] []
     = [(''10.0.9.7'', ''aabb.cc00.5566'')]"
  by (simp add: vrf_loop_def store_rows_def)

lemma ex_router_low_loop:
  "router_loop ex_router_low (router_vlans (leaf_vlans (show_vlans ex_leaf)) (vlan_ints (interfaces ex_leaf))) []
     = Inr [(''10.0.9.7'', ''aabb.cc00.5566'')]"
  by (simp only: ex_router_vlans ex_router_low_step ex_router_low_last ex_vrf_loop_low)

lemma ex_resolve_routed_low:
  "resolve_loop ex_routed [(''10.0.9.7'', ''aabb.cc00.5566'')]
      (resolve_loop ex_local (arp_dict (leaf_arp ex_leaf)) ([], [])) =
     ([noip_line ''aabb.cc00.3344'' (''Ethernet2'', 10), noip_line ''aabb.cc00.99aa'' (''Port-Channel10'', 4094)],
      [''10.0.10.5'', ''10.0.10.6'', ''10.0.9.7''])"
  unfolding ex_resolve_local by (simp add: ex_routed_def ipadd_def)

lemma ex_addr_low: "IPv4Address ''10.0.9.7'' = Inr 167774471"
  by (simp add: IPv4Address_def parse_octet_def int_of_digits_def digit_val_def is_digit_def)

lemma ex_sorted_low:
  "sorted_ips [''10.0.10.5'', ''10.0.10.6'', ''10.0.9.7''] = Inr [''10.0.9.7'', ''10.0.10.5'', ''10.0.10.6'']"
  by (simp add: sorted_ips_def ex_addr_hosts ex_addr_low)

text \<open>
  C5, as the code has it.  When every address parses, the sorted sequence exists; its
  numeric values ascend, it has the same addresses with the same multiplicities as the
  input (nothing is dropped or merged), and addresses of equal value keep their input
  order.  The sequence of the example is 10.0.0.3, 10.0.0.3, 10.0.0.20, 10.0.0.100.
  In a run that got past the router loop, the sequence that is sorted is the addresses of
  the local partition followed by those of the remote partition, and the last loop goes
  through the sorted sequence, in its order, and through nothing else; when an address
  does not parse, the run ends there and no name is looked up.
\<close>

theorem sorted_ips_numeric_stable:
  "(sorted_ips ips = Inr s \<longrightarrow>
      (\<exists>ks. map IPv4Address s = map Inr ks \<and> sorted ks)
      \<and> mset s = mset ips
      \<and> (\<forall>k. filter (\<lambda>ip. IPv4Address ip = Inr k) s = filter (\<lambda>ip. IPv4Address ip = Inr k) ips))
   \<and> ((\<forall>ip \<in> set ips. \<exists>k. IPv4Address ip = Inr k) \<longrightarrow> (\<exists>s. sorted_ips ips = Inr s))
   \<and> sorted_ips [''10.0.0.20'', ''10.0.0.3'', ''10.0.0.3'', ''10.0.0.100'']
       = Inr [''10.0.0.3'', ''10.0.0.3'', ''10.0.0.20'', ''10.0.0.100'']
   \<and> (local_macs (vlan_ints (interfaces leaf)) (macadds (show_macs leaf)) = Inr lm
      \<and> routed_macs (vlan_ints (interfaces leaf)) (macadds (show_macs leaf)) = Inr rm
      \<and> router_loop router (router_vlans (leaf_vlans (show_vlans leaf)) (vlan_ints (interfaces leaf))) [] = Inr rad
      \<longrightarrow>
        snd (resolve_loop rm rad (resolve_loop lm (arp_dict (leaf_arp leaf)) ([], [])))
          = concat (map (\<lambda>(m, info). ipadd (arp_dict (leaf_arp leaf)) m) lm)
            @ concat (map (\<lambda>(m, info). ipadd rad m) rm)
        \<and> run leaf router resolver =
          (case sorted_ips (snd (resolve_loop rm rad (resolve_loop lm (arp_dict (leaf_arp leaf)) ([], [])))) of
             Inl e \<Rightarrow>
               (Some e, fst (resolve_loop rm rad (resolve_loop lm (arp_dict (leaf_arp leaf)) ([], []))), [])
           | Inr sorted_addrs \<Rightarrow>
               (None, fst (resolve_loop rm rad (resolve_loop lm (arp_dict (leaf_arp leaf)) ([], []))),
                map (name_line resolver) sorted_addrs)))"
proof -
  have 1: "(\<exists>ks. map IPv4Address s = map Inr ks \<and> sorted ks)
      \<and> mset s = mset ips
      \<and> (\<forall>k. filter (\<lambda>ip. IPv4Address ip = Inr k) s = filter (\<lambda>ip. IPv4Address ip = Inr k) ips)"
    if "sorted_ips ips = Inr s"
    using that by (rule sorted_ips_props)
  have 2: "\<exists>s. sorted_ips ips = Inr s" if h: "\<forall>ip \<in> set ips. \<exists>k. IPv4Address ip = Inr k"
  proof -
    obtain ks where "sort_keys ips = Inr ks" using h sort_keys_total by blast
    then show ?thesis by (simp add: sorted_ips_def)
  qed
  have 3: "snd (resolve_loop rm rad (resolve_loop lm (arp_dict (leaf_arp leaf)) ([], [])))
          = concat (map (\<lambda>(m, info). ipadd (arp_dict (leaf_arp leaf)) m) lm)
            @ concat (map (\<lambda>(m, info). ipadd rad m) rm)"
    by (simp add: resolve_loop_contributions)
  have 4: "run leaf router resolver =
          (case sorted_ips (snd (resolve_loop rm rad (resolve_loop lm (arp_dict (leaf_arp leaf)) ([], [])))) of
             Inl e \<Rightarrow>
               (Some e, fst (resolve_loop rm rad (resolve_loop lm (arp_dict (leaf_arp leaf)) ([], []))), [])
           | Inr sorted_addrs \<Rightarrow>
               (None, fst (resolve_loop rm rad (resolve_loop lm (arp_dict (leaf_arp leaf)) ([], []))),
                map (name_line resolver) sorted_addrs))"
    if "local_macs (vlan_ints (interfaces leaf)) (macadds (show_macs leaf)) = Inr lm
      \<and> routed_macs (vlan_ints (interfaces leaf)) (macadds (show_macs leaf)) = Inr rm
      \<and> router_loop router (router_vlans (leaf_vlans (show_vlans leaf)) (vlan_ints (interfaces leaf))) [] = Inr rad"
    using that run_after_router [of leaf lm rm router rad resolver] by blast
  show ?thesis using 1 2 3 4 ex_sorted by blast
qed

theorem sorted_ips_numeric_stable_witness:
  "sorted_ips [''10.0.0.20'', ''10.0.0.3'', ''10.0.0.3'', ''10.0.0.100'']
     = Inr [''10.0.0.3'', ''10.0.0.3'', ''10.0.0.20'', ''10.0.0.100'']
   \<and> map IPv4Address [''10.0.0.3'', ''10.0.0.3'', ''10.0.0.20'', ''10.0.0.100'']
     = map Inr [167772163, 167772163, 167772180, 167772260]
   \<and> mset [''10.0.0.3'', ''10.0.0.3'', ''10.0.0.20'', ''10.0.0.100'']
     = mset [''10.0.0.20'', ''10.0.0.3'', ''10.0.0.3'', ''10.0.0.100'']
   \<and> filter (\<lambda>ip. IPv4Address ip = Inr 167772163) [''10.0.0.3'', ''10.0.0.3'', ''10.0.0.20'', ''10.0.0.100'']
     = [''10.0.0.3'', ''10.0.0.3'']
   \<and> local_macs (vlan_ints (interfaces ex_leaf)) (macadds (show_macs ex_leaf)) = Inr ex_local
   \<and> routed_macs (vlan_ints (interfaces ex_leaf)) (macadds (show_macs ex_leaf)) = Inr ex_routed
   \<and> router_loop ex_router_low (router_vlans (leaf_vlans (show_vlans ex_leaf)) (vlan_ints (interfaces ex_leaf))) []
       = Inr [(''10.0.9.7'', ''aabb.cc00.5566'')]
   \<and> snd (resolve_loop ex_routed [(''10.0.9.7'', ''aabb.cc00.5566'')]
         (resolve_loop ex_local (arp_dict (leaf_arp ex_leaf)) ([], [])))
       = [''10.0.10.5'', ''10.0.10.6'', ''10.0.9.7'']
   \<and> run ex_leaf ex_router_low ex_resolver =
       (None,
        [noip_line ''aabb.cc00.3344'' (''Ethernet2'', 10), noip_line ''aabb.cc00.99aa'' (''Port-Channel10'', 4094)],
        [name_line ex_resolver ''10.0.9.7'', name_line ex_resolver ''10.0.10.5'',
         name_line ex_resolver ''10.0.10.6''])"
proof -
  note inst = sorted_ips_numeric_stable [of "[''10.0.0.20'', ''10.0.0.3'', ''10.0.0.3'', ''10.0.0.100'']"
      "[''10.0.0.3'', ''10.0.0.3'', ''10.0.0.20'', ''10.0.0.100'']" ex_leaf ex_local ex_routed
      ex_router_low "[(''10.0.9.7'', ''aabb.cc00.5566'')]" ex_resolver]
  have m: "mset [''10.0.0.3'', ''10.0.0.3'', ''10.0.0.20'', ''10.0.0.100'']
     = mset [''10.0.0.20'', ''10.0.0.3'', ''10.0.0.3'', ''10.0.0.100'']"
    using inst ex_sorted by blast
  have k: "map IPv4Address [''10.0.0.3'', ''10.0.0.3'', ''10.0.0.20'', ''10.0.0.100'']
     = map Inr [167772163, 167772163, 167772180, 167772260]"
    by (simp add: ex_addr)
  have f: "filter (\<lambda>ip. IPv4Address ip = Inr 167772163) [''10.0.0.3'', ''10.0.0.3'', ''10.0.0.20'', ''10.0.0.100'']
     = [''10.0.0.3'', ''10.0.0.3'']"
    by (simp add: ex_addr)
  have sn: "snd (resolve_loop ex_routed [(''10.0.9.7'', ''aabb.cc00.5566'')]
         (resolve_loop ex_local (arp_dict (leaf_arp ex_leaf)) ([], [])))
       = [''10.0.10.5'', ''10.0.10.6'', ''10.0.9.7'']"
    by (simp only: ex_resolve_routed_low snd_conv)
  have "run ex_leaf ex_router_low ex_resolver =
          (case sorted_ips (snd (resolve_loop ex_routed [(''10.0.9.7'', ''aabb.cc00.5566'')]
                 (resolve_loop ex_local (arp_dict (leaf_arp ex_leaf)) ([], [])))) of
             Inl e \<Rightarrow>
               (Some e, fst (resolve_loop ex_routed [(''10.0.9.7'', ''aabb.cc00.5566'')]
                 (resolve_loop ex_local (arp_dict (leaf_arp ex_leaf)) ([], []))), [])
           | Inr sorted_addrs \<Rightarrow>
               (None, fst (resolve_loop ex_routed [(''10.0.9.7'', ''aabb.cc00.5566'')]
                 (resolve_loop ex_local (arp_dict (leaf_arp ex_leaf)) ([], []))),
                map (name_line ex_resolver) sorted_addrs))"
    using inst ex_local_macs ex_routed_macs ex_router_low_loop by blast
  then have r: "run ex_leaf ex_router_low ex_resolver =
       (None,
        [noip_line ''aabb.cc00.3344'' (''Ethernet2'', 10), noip_line ''aabb.cc00.99aa'' (''Port-Channel10'', 4094)],
        [name_line ex_resolver ''10.0.9.7'', name_line ex_resolver ''10.0.10.5'',
         name_line ex_resolver ''10.0.10.6''])"
    by (simp add: ex_resolve_routed_low ex_sorted_low)
  show ?thesis using ex_sorted k m f ex_local_macs ex_routed_macs ex_router_low_loop sn r by blast
qed

subsection \<open>The report of the names\<close>

text \<open>
  C8.  In a run that got as far as the last loop (the partitions were built, the router
  answered every query, every address parsed), the resolver cannot end the run: whatever
  it returns or raises, the run ends without an exception and the IP report has exactly
  one line for every sorted address, in the sorted order: the address and its name when
  the resolver answers, the address and the words \<^verbatim>\<open>does not resolve in DNS\<close> when it raises.
\<close>

theorem name_resolution_never_fatal:
  assumes "local_macs (vlan_ints (interfaces leaf)) (macadds (show_macs leaf)) = Inr lm"
    and "routed_macs (vlan_ints (interfaces leaf)) (macadds (show_macs leaf)) = Inr rm"
    and "router_loop router (router_vlans (leaf_vlans (show_vlans leaf)) (vlan_ints (interfaces leaf))) [] = Inr rad"
    and "sorted_ips (snd (resolve_loop rm rad (resolve_loop lm (arp_dict (leaf_arp leaf)) ([], [])))) = Inr s"
  shows "\<exists>lines.
      run leaf router resolver =
        (None, fst (resolve_loop rm rad (resolve_loop lm (arp_dict (leaf_arp leaf)) ([], []))), lines)
    \<and> length lines = length s
    \<and> (\<forall>i < length s.
          lines ! i =
            (case resolver (s ! i) of
               Inr name \<Rightarrow> s ! i @ ''  '' @ name @ '' '' @ [newline]
             | Inl e \<Rightarrow> s ! i @ '' does not resolve in DNS'' @ [newline]))"
proof -
  have "run leaf router resolver =
        (None, fst (resolve_loop rm rad (resolve_loop lm (arp_dict (leaf_arp leaf)) ([], []))),
         map (name_line resolver) s)"
    using run_after_router [OF assms(1) assms(2) assms(3), of resolver] assms(4) by simp
  moreover have "\<forall>i < length s. map (name_line resolver) s ! i =
            (case resolver (s ! i) of
               Inr name \<Rightarrow> s ! i @ ''  '' @ name @ '' '' @ [newline]
             | Inl e \<Rightarrow> s ! i @ '' does not resolve in DNS'' @ [newline])"
    by (simp add: name_line_def)
  ultimately show ?thesis by simp
qed

theorem name_resolution_never_fatal_witness:
  "local_macs (vlan_ints (interfaces ex_leaf)) (macadds (show_macs ex_leaf)) = Inr ex_local
   \<and> routed_macs (vlan_ints (interfaces ex_leaf)) (macadds (show_macs ex_leaf)) = Inr ex_routed
   \<and> router_loop ex_router (router_vlans (leaf_vlans (show_vlans ex_leaf)) (vlan_ints (interfaces ex_leaf))) []
       = Inr [(''10.0.20.7'', ''aabb.cc00.5566'')]
   \<and> sorted_ips (snd (resolve_loop ex_routed [(''10.0.20.7'', ''aabb.cc00.5566'')]
         (resolve_loop ex_local (arp_dict (leaf_arp ex_leaf)) ([], []))))
       = Inr [''10.0.10.5'', ''10.0.10.6'', ''10.0.20.7'']
   \<and> run ex_leaf ex_router ex_resolver =
       (None,
        [noip_line ''aabb.cc00.3344'' (''Ethernet2'', 10), noip_line ''aabb.cc00.99aa'' (''Port-Channel10'', 4094)],
        [''10.0.10.5  host-a.example.com '' @ [newline],
         ''10.0.10.6 does not resolve in DNS'' @ [newline],
         ''10.0.20.7 does not resolve in DNS'' @ [newline]])"
proof -
  have rl: "router_loop ex_router (router_vlans (leaf_vlans (show_vlans ex_leaf)) (vlan_ints (interfaces ex_leaf))) []
       = Inr [(''10.0.20.7'', ''aabb.cc00.5566'')]"
    by (simp only: ex_router_vlans ex_router_loop)
  have st: "resolve_loop ex_routed [(''10.0.20.7'', ''aabb.cc00.5566'')]
         (resolve_loop ex_local (arp_dict (leaf_arp ex_leaf)) ([], [])) =
     ([noip_line ''aabb.cc00.3344'' (''Ethernet2'', 10), noip_line ''aabb.cc00.99aa'' (''Port-Channel10'', 4094)],
      [''10.0.10.5'', ''10.0.10.6'', ''10.0.20.7''])"
    by (simp only: ex_resolve_local ex_resolve_routed)
  have so: "sorted_ips (snd (resolve_loop ex_routed [(''10.0.20.7'', ''aabb.cc00.5566'')]
         (resolve_loop ex_local (arp_dict (leaf_arp ex_leaf)) ([], []))))
       = Inr [''10.0.10.5'', ''10.0.10.6'', ''10.0.20.7'']"
    by (simp add: st ex_sorted_hosts)
  obtain lines where run: "run ex_leaf ex_router ex_resolver =
        (None, fst (resolve_loop ex_routed [(''10.0.20.7'', ''aabb.cc00.5566'')]
           (resolve_loop ex_local (arp_dict (leaf_arp ex_leaf)) ([], []))), lines)"
    and len: "length lines = length [''10.0.10.5'', ''10.0.10.6'', ''10.0.20.7'']"
    and each: "\<forall>i < length [''10.0.10.5'', ''10.0.10.6'', ''10.0.20.7''].
          lines ! i =
            (case ex_resolver ([''10.0.10.5'', ''10.0.10.6'', ''10.0.20.7''] ! i) of
               Inr name \<Rightarrow> [''10.0.10.5'', ''10.0.10.6'', ''10.0.20.7''] ! i @ ''  '' @ name @ '' '' @ [newline]
             | Inl e \<Rightarrow> [''10.0.10.5'', ''10.0.10.6'', ''10.0.20.7''] ! i @ '' does not resolve in DNS'' @ [newline])"
    using name_resolution_never_fatal [OF ex_local_macs ex_routed_macs rl so, of ex_resolver] by blast
  obtain a b c where abc: "lines = [a, b, c]"
    using len by (auto simp: length_Suc_conv)
  have l0: "a = ''10.0.10.5  host-a.example.com '' @ [newline]"
    using each [rule_format, of 0] by (simp add: abc ex_resolver_def)
  have l1: "b = ''10.0.10.6 does not resolve in DNS'' @ [newline]"
    using each [rule_format, of 1] by (simp add: abc ex_resolver_def)
  have l2: "c = ''10.0.20.7 does not resolve in DNS'' @ [newline]"
    using each [rule_format, of 2] by (simp add: abc ex_resolver_def)
  have lines: "lines = [''10.0.10.5  host-a.example.com '' @ [newline],
         ''10.0.10.6 does not resolve in DNS'' @ [newline],
         ''10.0.20.7 does not resolve in DNS'' @ [newline]]"
    using abc l0 l1 l2 by simp
  have "run ex_leaf ex_router ex_resolver =
       (None,
        [noip_line ''aabb.cc00.3344'' (''Ethernet2'', 10), noip_line ''aabb.cc00.99aa'' (''Port-Channel10'', 4094)],
        [''10.0.10.5  host-a.example.com '' @ [newline],
         ''10.0.10.6 does not resolve in DNS'' @ [newline],
         ''10.0.20.7 does not resolve in DNS'' @ [newline]])"
    using run by (simp only: st lines fst_conv)
  then show ?thesis using ex_local_macs ex_routed_macs rl so by blast
qed


subsection \<open>The format of the MAC addresses\<close>

lemma split_on_nonempty: "split_on sep s \<noteq> []"
  by (induction s) (auto split: list.splits)

lemma length_split_on: "length (split_on sep s) = Suc (length (filter (\<lambda>c. c = sep) s))"
  by (induction s) (auto split: list.splits simp: split_on_nonempty)

lemma split_on_no_sep: "sep \<notin> set g \<Longrightarrow> split_on sep g = [g]"
  by (induction g) auto

lemma split_on_group: "sep \<notin> set g \<Longrightarrow> split_on sep (g @ sep # rest) = g # split_on sep rest"
  by (induction g) auto

lemma mac_format_IndexError:
  "mac_format s = Inl IndexError \<longleftrightarrow> length (filter (\<lambda>c. c = CHR '':'') s) < 5"
  by (auto simp: mac_format_def Let_def length_split_on)

lemma mac_format_six_groups:
  assumes "\<forall>g \<in> set [g1, g2, g3, g4, g5, g6]. CHR '':'' \<notin> set g"
  shows "mac_format (g1 @ '':'' @ g2 @ '':'' @ g3 @ '':'' @ g4 @ '':'' @ g5 @ '':'' @ g6)
     = Inr (g1 @ g2 @ ''.'' @ g3 @ g4 @ ''.'' @ g5 @ g6)"
proof -
  have "split_on CHR '':'' (g1 @ '':'' @ g2 @ '':'' @ g3 @ '':'' @ g4 @ '':'' @ g5 @ '':'' @ g6)
     = [g1, g2, g3, g4, g5, g6]"
    using assms by (simp add: split_on_group split_on_no_sep)
  then show ?thesis by (simp add: mac_format_def)
qed

text \<open>
  C6 fails as stated: the colon form is turned into the dotted form, while the dotted
  form of the same address is not accepted at all: it raises IndexError.
\<close>

theorem mac_format_colon_only_counterexample:
  "mac_format ''aa:bb:cc:00:11:22'' = Inr ''aabb.cc00.1122''
   \<and> mac_format ''aabb.cc00.1122'' = Inl IndexError"
  by (simp add: mac_format_def)

text \<open>
  C6, as the code has it.  The format handles the colon-delimited form only: a text
  with fewer than five colons raises IndexError, and for six groups without a colon the
  result is the groups joined two by two with dots, the characters copied as they are.
\<close>

theorem mac_format_colon_only:
  "(mac_format s = Inl IndexError \<longleftrightarrow> length (filter (\<lambda>c. c = CHR '':'') s) < 5)
   \<and> ((\<forall>g \<in> set [g1, g2, g3, g4, g5, g6]. CHR '':'' \<notin> set g) \<longrightarrow>
        mac_format (g1 @ '':'' @ g2 @ '':'' @ g3 @ '':'' @ g4 @ '':'' @ g5 @ '':'' @ g6)
          = Inr (g1 @ g2 @ ''.'' @ g3 @ g4 @ ''.'' @ g5 @ g6))"
  using mac_format_IndexError [of s] mac_format_six_groups [of g1 g2 g3 g4 g5 g6] by blast

theorem mac_format_colon_only_witness:
  "mac_format (''AA'' @ '':'' @ ''BB'' @ '':'' @ ''CC'' @ '':'' @ ''00'' @ '':'' @ ''11'' @ '':'' @ ''22'')
     = Inr ''AABB.CC00.1122''
   \<and> length (filter (\<lambda>c. c = CHR '':'') ''aabb.cc00.1122'') < 5
   \<and> mac_format ''aabb.cc00.1122'' = Inl IndexError"
  using mac_format_colon_only [of "''aabb.cc00.1122''" "''AA''" "''BB''" "''CC''" "''00''" "''11''" "''22''"]
  by simp

subsection \<open>The partitions\<close>

lemma mac_comprehension_lookup:
  "mac_comprehension cond ms d = Inr d' \<Longrightarrow>
   map_of d' k =
     (let f = [e \<leftarrow> ms. cond e \<and> mac_format (macAddress e) = Inr k]
      in if f = [] then map_of d k else Some (interface (last f), vlanId (last f)))"
proof (induction ms arbitrary: d)
  case Nil
  then show ?case by simp
next
  case (Cons m ms)
  show ?case
  proof (cases "cond m")
    case False
    then show ?thesis using Cons by simp
  next
    case True
    then obtain k0 where k0: "mac_format (macAddress m) = Inr k0"
      and rest: "mac_comprehension cond ms (AList.update k0 (interface m, vlanId m) d) = Inr d'"
      using Cons.prems by (auto split: sum.splits)
    show ?thesis
      using Cons.IH [OF rest] True k0
      by (auto simp: update_conv' Let_def)
  qed
qed

lemma mac_comprehension_format:
  "mac_comprehension cond ms d = Inr d' \<Longrightarrow> e \<in> set ms \<Longrightarrow> cond e \<Longrightarrow>
   \<exists>k. mac_format (macAddress e) = Inr k"
  by (induction ms arbitrary: d) (auto split: if_splits sum.splits)

lemma mac_comprehension_member:
  assumes "mac_comprehension cond ms [] = Inr d'"
  shows "(k, i, v) \<in> set d' \<longleftrightarrow> map_of d' k = Some (i, v)"
  using mac_comprehension_distinct [OF assms] by simp

lemma mac_comprehension_key:
  assumes res: "mac_comprehension cond ms [] = Inr d'" and e: "e \<in> set ms" and c: "cond e"
  shows "\<exists>k. mac_format (macAddress e) = Inr k \<and> k \<in> fst ` set d'"
proof -
  obtain k where k: "mac_format (macAddress e) = Inr k"
    using mac_comprehension_format [OF res e c] by blast
  have "e \<in> set [e \<leftarrow> ms. cond e \<and> mac_format (macAddress e) = Inr k]" using e c k by simp
  then have "[e \<leftarrow> ms. cond e \<and> mac_format (macAddress e) = Inr k] \<noteq> []" by force
  then obtain y where "map_of d' k = Some y"
    using mac_comprehension_lookup [OF res, of k] by (auto simp: Let_def)
  then have "(k, y) \<in> set d'" by (rule map_of_SomeD)
  then show ?thesis using k by force
qed

lemma mac_comprehension_origin:
  assumes res: "mac_comprehension cond ms [] = Inr d'" and mem: "(k, i, v) \<in> set d'"
  shows "\<exists>e \<in> set ms. cond e \<and> mac_format (macAddress e) = Inr k \<and> i = interface e \<and> v = vlanId e"
proof -
  let ?f = "[e \<leftarrow> ms. cond e \<and> mac_format (macAddress e) = Inr k]"
  have look: "map_of d' k = Some (i, v)" using mac_comprehension_member [OF res] mem by simp
  then have ne: "?f \<noteq> []" and val: "i = interface (last ?f)" "v = vlanId (last ?f)"
    using mac_comprehension_lookup [OF res, of k] by (auto simp: Let_def split: if_splits)
  have "last ?f \<in> set ?f" using ne by (rule last_in_set)
  then show ?thesis using val by auto
qed

lemma mac_comprehension_last_writer:
  assumes res: "mac_comprehension cond (pre @ e # post) [] = Inr d'"
    and c: "cond e" and k: "mac_format (macAddress e) = Inr k"
    and later: "\<forall>e' \<in> set post. \<not> (cond e' \<and> mac_format (macAddress e') = Inr k)"
  shows "(k, interface e, vlanId e) \<in> set d'"
proof -
  have "[x \<leftarrow> post. cond x \<and> mac_format (macAddress x) = Inr k] = []"
    using later by (auto simp: filter_empty_conv)
  then have "[x \<leftarrow> pre @ e # post. cond x \<and> mac_format (macAddress x) = Inr k]
      = [x \<leftarrow> pre. cond x \<and> mac_format (macAddress x) = Inr k] @ [e]"
    using c k by simp
  then have "map_of d' k = Some (interface e, vlanId e)"
    using mac_comprehension_lookup [OF res, of k] by (simp add: Let_def)
  then show ?thesis using mac_comprehension_member [OF res] by simp
qed

subsection \<open>The numbers of the VLANs\<close>











lemma ex_dup_macadds: "macadds (show_macs ex_dup_leaf) = show_macs ex_dup_leaf"
  by (simp add: macadds_def ex_dup_leaf_def regex_defs)

lemma ex_dup_vlan_ints: "vlan_ints (interfaces ex_dup_leaf) = [''Vlan10'', ''Vlan11'']"
  by (simp add: vlan_ints_def ex_dup_leaf_def regex_defs)

lemma ex_dup_leaf_vlans: "leaf_vlans (show_vlans ex_dup_leaf) = [''10'', ''11'', ''20'']"
  by (simp add: leaf_vlans_def ex_dup_leaf_def regex_defs)

lemma ex_dup_local:
  "local_macs (vlan_ints (interfaces ex_dup_leaf)) (macadds (show_macs ex_dup_leaf))
     = Inr [(''aabb.cc00.1122'', ''Ethernet1'', 11)]"
  by (simp add: ex_dup_vlan_ints ex_dup_macadds)
     (simp add: ex_dup_leaf_def local_macs_def mac_format_def str_int_def str_nat.simps digit_char_def)

lemma ex_dup_routed:
  "routed_macs (vlan_ints (interfaces ex_dup_leaf)) (macadds (show_macs ex_dup_leaf))
     = Inr [(''aabb.cc00.1122'', ''Ethernet1'', 20)]"
  by (simp add: ex_dup_vlan_ints ex_dup_macadds)
     (simp add: ex_dup_leaf_def routed_macs_def mac_format_def str_int_def str_nat.simps digit_char_def)









lemma partition_placement:
  assumes lm: "local_macs vi (pre @ e # post) = Inr lm"
    and rm: "routed_macs vi (pre @ e # post) = Inr rm"
  shows "\<exists>k. mac_format (macAddress e) = Inr k \<and>
     (if ''Vlan'' @ str_int (vlanId e) \<in> set vi
      then k \<in> fst ` set lm \<and> (k, interface e, vlanId e) \<notin> set rm
         \<and> ((\<forall>e' \<in> set post. mac_format (macAddress e') = Inr k \<longrightarrow>
                ''Vlan'' @ str_int (vlanId e') \<notin> set vi) \<longrightarrow>
             (k, interface e, vlanId e) \<in> set lm)
      else k \<in> fst ` set rm \<and> (k, interface e, vlanId e) \<notin> set lm
         \<and> ((\<forall>e' \<in> set post. mac_format (macAddress e') = Inr k \<longrightarrow>
                ''Vlan'' @ str_int (vlanId e') \<in> set vi) \<longrightarrow>
             (k, interface e, vlanId e) \<in> set rm))"
proof -
  let ?loc = "\<lambda>mac. ''Vlan'' @ str_int (vlanId mac) \<in> set vi"
  let ?rem = "\<lambda>mac. ''Vlan'' @ str_int (vlanId mac) \<notin> set vi"
  have lm': "mac_comprehension ?loc (pre @ e # post) [] = Inr lm"
    using lm by (simp add: local_macs_def)
  have rm': "mac_comprehension ?rem (pre @ e # post) [] = Inr rm"
    using rm by (simp add: routed_macs_def)
  have e: "e \<in> set (pre @ e # post)" by simp
  show ?thesis
  proof (cases "?loc e")
    case True
    obtain k where k: "mac_format (macAddress e) = Inr k" and dom: "k \<in> fst ` set lm"
      using mac_comprehension_key [OF lm' e True] by blast
    have other: "(k, interface e, vlanId e) \<notin> set rm"
    proof
      assume a: "(k, interface e, vlanId e) \<in> set rm"
      from mac_comprehension_origin [OF rm' a]
      obtain x :: mac_entry where x: "''Vlan'' @ str_int (vlanId x) \<notin> set vi" "vlanId e = vlanId x"
        by blast
      from True x(1) show False by (simp add: x(2))
    qed
    have own: "(k, interface e, vlanId e) \<in> set lm"
      if "\<forall>e' \<in> set post. mac_format (macAddress e') = Inr k \<longrightarrow> ?rem e'"
      using mac_comprehension_last_writer [OF lm' True k] that by blast
    show ?thesis using True k dom other own by auto
  next
    case False
    obtain k where k: "mac_format (macAddress e) = Inr k" and dom: "k \<in> fst ` set rm"
      using mac_comprehension_key [OF rm' e False] by blast
    have other: "(k, interface e, vlanId e) \<notin> set lm"
    proof
      assume a: "(k, interface e, vlanId e) \<in> set lm"
      from mac_comprehension_origin [OF lm' a]
      obtain x :: mac_entry where x: "''Vlan'' @ str_int (vlanId x) \<in> set vi" "vlanId e = vlanId x"
        by blast
      from False x(1) show False by (simp add: x(2))
    qed
    have own: "(k, interface e, vlanId e) \<in> set rm"
      if "\<forall>e' \<in> set post. mac_format (macAddress e') = Inr k \<longrightarrow> ?loc e'"
      using mac_comprehension_last_writer [OF rm' False k] that by blast
    show ?thesis using False k dom other own by auto
  qed
qed

text \<open>
  C4 fails as stated: one host is seen in VLANs 10 and 11, both routed locally, and in
  VLAN 20, routed elsewhere; all three VLANs are in the VLAN database.  The entry of
  VLAN 10 is in neither partition, the later entry of VLAN 11 having taken its key, and
  the address is a key of both partitions.
\<close>

theorem partition_by_vlan_ints_counterexample:
  "macadds (show_macs ex_dup_leaf) = show_macs ex_dup_leaf
   \<and> leaf_vlans (show_vlans ex_dup_leaf) = [''10'', ''11'', ''20'']
   \<and> local_macs (vlan_ints (interfaces ex_dup_leaf)) (macadds (show_macs ex_dup_leaf))
       = Inr [(''aabb.cc00.1122'', ''Ethernet1'', 11)]
   \<and> routed_macs (vlan_ints (interfaces ex_dup_leaf)) (macadds (show_macs ex_dup_leaf))
       = Inr [(''aabb.cc00.1122'', ''Ethernet1'', 20)]"
  using ex_dup_macadds ex_dup_leaf_vlans ex_dup_local ex_dup_routed by blast

text \<open>
  C4, as the code has it.  Every filtered entry is chosen by exactly one of the two
  comprehensions: the local one when the name of its VLAN interface is in \<^verbatim>\<open>vlan_ints\<close>,
  the remote one otherwise.  Its formatted address is a key of the partition that chose
  it, and the entry itself (its interface and VLAN under that key) is never in the other
  partition.  It is in its own partition unless a later entry with the same formatted
  address goes to the same partition: the last one wins.
\<close>

theorem partition_by_vlan_ints:
  assumes "local_macs vi (pre @ e # post) = Inr lm"
    and "routed_macs vi (pre @ e # post) = Inr rm"
  shows "\<exists>k. mac_format (macAddress e) = Inr k \<and>
     (if ''Vlan'' @ str_int (vlanId e) \<in> set vi
      then k \<in> fst ` set lm \<and> (k, interface e, vlanId e) \<notin> set rm
         \<and> ((\<forall>e' \<in> set post. mac_format (macAddress e') = Inr k \<longrightarrow>
                ''Vlan'' @ str_int (vlanId e') \<notin> set vi) \<longrightarrow>
             (k, interface e, vlanId e) \<in> set lm)
      else k \<in> fst ` set rm \<and> (k, interface e, vlanId e) \<notin> set lm
         \<and> ((\<forall>e' \<in> set post. mac_format (macAddress e') = Inr k \<longrightarrow>
                ''Vlan'' @ str_int (vlanId e') \<in> set vi) \<longrightarrow>
             (k, interface e, vlanId e) \<in> set rm))"
  using assms by (rule partition_placement)


lemma ex_dup_split: "macadds (show_macs ex_dup_leaf) = [ex_e10] @ ex_e11 # [ex_e20]"
  by (simp add: ex_dup_macadds) (simp add: ex_dup_leaf_def ex_e10_def ex_e11_def ex_e20_def)

theorem partition_by_vlan_ints_witness:
  "local_macs (vlan_ints (interfaces ex_dup_leaf)) ([ex_e10] @ ex_e11 # [ex_e20])
     = Inr [(''aabb.cc00.1122'', ''Ethernet1'', 11)]
   \<and> routed_macs (vlan_ints (interfaces ex_dup_leaf)) ([ex_e10] @ ex_e11 # [ex_e20])
     = Inr [(''aabb.cc00.1122'', ''Ethernet1'', 20)]
   \<and> ''Vlan'' @ str_int (vlanId ex_e11) \<in> set (vlan_ints (interfaces ex_dup_leaf))
   \<and> ''Vlan'' @ str_int (vlanId ex_e20) \<notin> set (vlan_ints (interfaces ex_dup_leaf))
   \<and> (\<exists>k. mac_format (macAddress ex_e11) = Inr k
        \<and> k \<in> fst ` set [(''aabb.cc00.1122'', ''Ethernet1'', 11::int)]
        \<and> (k, interface ex_e11, vlanId ex_e11) \<notin> set [(''aabb.cc00.1122'', ''Ethernet1'', 20)]
        \<and> (k, interface ex_e11, vlanId ex_e11) \<in> set [(''aabb.cc00.1122'', ''Ethernet1'', 11)])"
proof -
  have l: "local_macs (vlan_ints (interfaces ex_dup_leaf)) ([ex_e10] @ ex_e11 # [ex_e20])
     = Inr [(''aabb.cc00.1122'', ''Ethernet1'', 11)]"
    using ex_dup_local by (simp only: ex_dup_split)
  have r: "routed_macs (vlan_ints (interfaces ex_dup_leaf)) ([ex_e10] @ ex_e11 # [ex_e20])
     = Inr [(''aabb.cc00.1122'', ''Ethernet1'', 20)]"
    using ex_dup_routed by (simp only: ex_dup_split)
  have c11: "''Vlan'' @ str_int (vlanId ex_e11) \<in> set (vlan_ints (interfaces ex_dup_leaf))"
    by (simp add: ex_dup_vlan_ints ex_e11_def str_int_def str_nat.simps digit_char_def)
  have c20: "''Vlan'' @ str_int (vlanId ex_e20) \<notin> set (vlan_ints (interfaces ex_dup_leaf))"
    by (simp add: ex_dup_vlan_ints ex_e20_def str_int_def str_nat.simps digit_char_def)
  have "\<exists>k. mac_format (macAddress ex_e11) = Inr k
        \<and> k \<in> fst ` set [(''aabb.cc00.1122'', ''Ethernet1'', 11::int)]
        \<and> (k, interface ex_e11, vlanId ex_e11) \<notin> set [(''aabb.cc00.1122'', ''Ethernet1'', 20)]
        \<and> (k, interface ex_e11, vlanId ex_e11) \<in> set [(''aabb.cc00.1122'', ''Ethernet1'', 11)]"
    using partition_by_vlan_ints [OF l r] c11 c20 by auto
  then show ?thesis using l r c11 c20 by blast
qed

text \<open>
  C3 fails as stated: VLAN 4094 is not in \<^verbatim>\<open>leaf_vlans\<close>, and the entry of the peer
  switch in VLAN 4094 is in the remote partition.
\<close>

theorem unlisted_vlan_not_dropped_counterexample:
  "macadds (show_macs ex_leaf) =
     [\<lparr>macAddress = ''aa:bb:cc:00:11:22'', interface = ''Ethernet1'', vlanId = 10, entryType = ''dynamic''\<rparr>,
      \<lparr>macAddress = ''aa:bb:cc:00:33:44'', interface = ''Ethernet2'', vlanId = 10, entryType = ''dynamic''\<rparr>,
      \<lparr>macAddress = ''aa:bb:cc:00:55:66'', interface = ''Ethernet3'', vlanId = 20, entryType = ''dynamic''\<rparr>,
      \<lparr>macAddress = ''aa:bb:cc:00:99:aa'', interface = ''Port-Channel10'', vlanId = 4094, entryType = ''dynamic''\<rparr>]
   \<and> leaf_vlans (show_vlans ex_leaf) = [''10'', ''20'', ''30'']
   \<and> routed_macs (vlan_ints (interfaces ex_leaf)) (macadds (show_macs ex_leaf))
       = Inr [(''aabb.cc00.5566'', ''Ethernet3'', 20), (''aabb.cc00.99aa'', ''Port-Channel10'', 4094)]"
  using ex_macadds ex_leaf_vlans ex_routed_macs by (simp add: ex_routed_def)

text \<open>
  C3, as the code has it.  The partitions are computed from \<^verbatim>\<open>vlan_ints\<close> alone, so an
  entry whose VLAN is not in \<^verbatim>\<open>leaf_vlans\<close> is kept: its formatted address is a key of
  the local partition when the name of its VLAN interface is in \<^verbatim>\<open>vlan_ints\<close>, of the
  remote partition otherwise, with the entry's interface and VLAN unless a later entry
  has the same formatted address.  Its VLAN is in neither \<^verbatim>\<open>local_vlans\<close> nor
  \<^verbatim>\<open>router_vlans\<close>, so the router is never asked about it.
\<close>

theorem unlisted_vlan_not_dropped:
  assumes "str_int (vlanId e) \<notin> set (leaf_vlans vlans)"
    and "local_macs vi (pre @ e # post) = Inr lm"
    and "routed_macs vi (pre @ e # post) = Inr rm"
  shows "\<exists>k. mac_format (macAddress e) = Inr k
     \<and> (if ''Vlan'' @ str_int (vlanId e) \<in> set vi then k \<in> fst ` set lm else k \<in> fst ` set rm)
     \<and> ((\<forall>e' \<in> set post. mac_format (macAddress e') \<noteq> Inr k) \<longrightarrow>
          (k, interface e, vlanId e) \<in> set (if ''Vlan'' @ str_int (vlanId e) \<in> set vi then lm else rm))
     \<and> str_int (vlanId e) \<notin> set (local_vlans (leaf_vlans vlans) vi)
     \<and> str_int (vlanId e) \<notin> set (router_vlans (leaf_vlans vlans) vi)"
proof -
  have "str_int (vlanId e) \<notin> set (local_vlans (leaf_vlans vlans) vi)"
    and "str_int (vlanId e) \<notin> set (router_vlans (leaf_vlans vlans) vi)"
    using assms(1) by (simp_all add: local_vlans_def router_vlans_def)
  then show ?thesis
    using partition_placement [OF assms(2) assms(3)] by (auto split: if_splits)
qed

lemma ex_leaf_split:
  "macadds (show_macs ex_leaf) =
     [\<lparr>macAddress = ''aa:bb:cc:00:11:22'', interface = ''Ethernet1'', vlanId = 10, entryType = ''dynamic''\<rparr>,
      \<lparr>macAddress = ''aa:bb:cc:00:33:44'', interface = ''Ethernet2'', vlanId = 10, entryType = ''dynamic''\<rparr>,
      \<lparr>macAddress = ''aa:bb:cc:00:55:66'', interface = ''Ethernet3'', vlanId = 20, entryType = ''dynamic''\<rparr>]
     @ ex_peer # []"
  by (simp add: ex_macadds ex_peer_def)

theorem unlisted_vlan_not_dropped_witness:
  "str_int (vlanId ex_peer) \<notin> set (leaf_vlans (show_vlans ex_leaf))
   \<and> ''Vlan'' @ str_int (vlanId ex_peer) \<notin> set (vlan_ints (interfaces ex_leaf))
   \<and> local_macs (vlan_ints (interfaces ex_leaf)) (macadds (show_macs ex_leaf)) = Inr ex_local
   \<and> routed_macs (vlan_ints (interfaces ex_leaf)) (macadds (show_macs ex_leaf)) = Inr ex_routed
   \<and> (\<exists>k. mac_format (macAddress ex_peer) = Inr k \<and> k \<in> fst ` set ex_routed
        \<and> (k, interface ex_peer, vlanId ex_peer) \<in> set ex_routed)
   \<and> str_int (vlanId ex_peer) \<notin> set (router_vlans (leaf_vlans (show_vlans ex_leaf)) (vlan_ints (interfaces ex_leaf)))"
proof -
  have v: "str_int (vlanId ex_peer) \<notin> set (leaf_vlans (show_vlans ex_leaf))"
    by (simp add: ex_leaf_vlans ex_peer_def str_int_def str_nat.simps digit_char_def)
  have c: "''Vlan'' @ str_int (vlanId ex_peer) \<notin> set (vlan_ints (interfaces ex_leaf))"
    by (simp add: ex_vlan_ints ex_peer_def str_int_def str_nat.simps digit_char_def)
  have l: "local_macs (vlan_ints (interfaces ex_leaf))
      ([\<lparr>macAddress = ''aa:bb:cc:00:11:22'', interface = ''Ethernet1'', vlanId = 10, entryType = ''dynamic''\<rparr>,
      \<lparr>macAddress = ''aa:bb:cc:00:33:44'', interface = ''Ethernet2'', vlanId = 10, entryType = ''dynamic''\<rparr>,
      \<lparr>macAddress = ''aa:bb:cc:00:55:66'', interface = ''Ethernet3'', vlanId = 20, entryType = ''dynamic''\<rparr>]
     @ ex_peer # []) = Inr ex_local"
    using ex_local_macs by (simp only: ex_leaf_split)
  have r: "routed_macs (vlan_ints (interfaces ex_leaf))
      ([\<lparr>macAddress = ''aa:bb:cc:00:11:22'', interface = ''Ethernet1'', vlanId = 10, entryType = ''dynamic''\<rparr>,
      \<lparr>macAddress = ''aa:bb:cc:00:33:44'', interface = ''Ethernet2'', vlanId = 10, entryType = ''dynamic''\<rparr>,
      \<lparr>macAddress = ''aa:bb:cc:00:55:66'', interface = ''Ethernet3'', vlanId = 20, entryType = ''dynamic''\<rparr>]
     @ ex_peer # []) = Inr ex_routed"
    using ex_routed_macs by (simp only: ex_leaf_split)
  have "(\<exists>k. mac_format (macAddress ex_peer) = Inr k \<and> k \<in> fst ` set ex_routed
        \<and> (k, interface ex_peer, vlanId ex_peer) \<in> set ex_routed)
     \<and> str_int (vlanId ex_peer) \<notin> set (router_vlans (leaf_vlans (show_vlans ex_leaf)) (vlan_ints (interfaces ex_leaf)))"
    using unlisted_vlan_not_dropped [OF v l r] c by auto
  then show ?thesis using v c ex_local_macs ex_routed_macs by blast
qed






















end
